theory Spec2Isabelle
  imports Complex_Main
begin

section \<open>Configuration model (Bookcase.tsx)\<close>

text \<open>
  JavaScript numbers. The finite values are idealised as exact reals (no rounding, no
  overflow, no signed zero); the three special values are kept, because division by zero
  and \<open>0 / 0\<close> produce them and every later operation propagates them.
\<close>

datatype jsnum = Fin real | PInf | NInf | NaN

fun js_neg :: "jsnum \<Rightarrow> jsnum" where
  "js_neg (Fin a) = Fin (- a)"
| "js_neg PInf = NInf"
| "js_neg NInf = PInf"
| "js_neg NaN = NaN"

fun js_add :: "jsnum \<Rightarrow> jsnum \<Rightarrow> jsnum" where
  "js_add (Fin a) (Fin b) = Fin (a + b)"
| "js_add NaN _ = NaN"
| "js_add _ NaN = NaN"
| "js_add PInf NInf = NaN"
| "js_add NInf PInf = NaN"
| "js_add PInf _ = PInf"
| "js_add _ PInf = PInf"
| "js_add NInf _ = NInf"
| "js_add _ NInf = NInf"

definition js_sub :: "jsnum \<Rightarrow> jsnum \<Rightarrow> jsnum" where
  "js_sub a b = js_add a (js_neg b)"

fun js_mul :: "jsnum \<Rightarrow> jsnum \<Rightarrow> jsnum" where
  "js_mul (Fin a) (Fin b) = Fin (a * b)"
| "js_mul NaN _ = NaN"
| "js_mul _ NaN = NaN"
| "js_mul PInf (Fin b) = (if b = 0 then NaN else if 0 < b then PInf else NInf)"
| "js_mul NInf (Fin b) = (if b = 0 then NaN else if 0 < b then NInf else PInf)"
| "js_mul (Fin a) PInf = (if a = 0 then NaN else if 0 < a then PInf else NInf)"
| "js_mul (Fin a) NInf = (if a = 0 then NaN else if 0 < a then NInf else PInf)"
| "js_mul PInf PInf = PInf"
| "js_mul NInf NInf = PInf"
| "js_mul PInf NInf = NInf"
| "js_mul NInf PInf = NInf"

fun js_div :: "jsnum \<Rightarrow> jsnum \<Rightarrow> jsnum" where
  "js_div (Fin a) (Fin b) =
     (if b = 0 then (if a = 0 then NaN else if 0 < a then PInf else NInf) else Fin (a / b))"
| "js_div NaN _ = NaN"
| "js_div _ NaN = NaN"
| "js_div (Fin a) PInf = Fin 0"
| "js_div (Fin a) NInf = Fin 0"
| "js_div PInf (Fin b) = (if 0 \<le> b then PInf else NInf)"
| "js_div NInf (Fin b) = (if 0 \<le> b then NInf else PInf)"
| "js_div PInf PInf = NaN"
| "js_div PInf NInf = NaN"
| "js_div NInf PInf = NaN"
| "js_div NInf NInf = NaN"

text \<open>The comparison \<open><\<close> of JavaScript: false as soon as one side is \<open>NaN\<close>.\<close>

fun js_lt :: "jsnum \<Rightarrow> jsnum \<Rightarrow> bool" where
  "js_lt (Fin a) (Fin b) = (a < b)"
| "js_lt NaN _ = False"
| "js_lt _ NaN = False"
| "js_lt NInf NInf = False"
| "js_lt NInf _ = True"
| "js_lt _ NInf = False"
| "js_lt PInf _ = False"
| "js_lt _ PInf = True"

fun is_finite :: "jsnum \<Rightarrow> bool" where
  "is_finite (Fin a) = True"
| "is_finite _ = False"

text \<open>An integer loop counter or count used in floating arithmetic.\<close>

definition js_int :: "int \<Rightarrow> jsnum" where
  "js_int i = Fin (of_int i)"

datatype drawer_type = Solid | Glass

record DrawerConfig =
  row :: int
  column :: int
  type :: drawer_type

text \<open>
  \<open>shelves\<close> and \<open>divisions\<close> are counts, and \<open>row\<close> and \<open>column\<close> are indices: they are
  integers (of either sign, as nothing in the type excludes a negative one).
\<close>

record BookcaseConfig =
  width :: jsnum
  height :: jsnum
  depth :: jsnum
  shelves :: int
  divisions :: int
  thickness :: jsnum
  color :: string
  drawers :: "DrawerConfig list"

section \<open>Array helpers of JavaScript\<close>

text \<open>\<open>Array.prototype.findIndex\<close>: the index of the first element that satisfies the
  predicate, \<open>-1\<close> when there is none.\<close>

fun findIndex :: "('a \<Rightarrow> bool) \<Rightarrow> 'a list \<Rightarrow> int" where
  "findIndex p [] = - 1"
| "findIndex p (x # xs) =
     (if p x then 0 else (let k = findIndex p xs in if k < 0 then - 1 else k + 1))"

text \<open>\<open>map\<close> and \<open>filter\<close> with a callback that also receives the index.\<close>

definition map_indexed :: "('a \<Rightarrow> int \<Rightarrow> 'b) \<Rightarrow> 'a list \<Rightarrow> 'b list" where
  "map_indexed f xs = map (\<lambda>(i, x). f x (int i)) (enumerate 0 xs)"

definition filter_indexed :: "('a \<Rightarrow> int \<Rightarrow> bool) \<Rightarrow> 'a list \<Rightarrow> 'a list" where
  "filter_indexed p xs = map snd (filter (\<lambda>(i, x). p x (int i)) (enumerate 0 xs))"

section \<open>Drawer edits\<close>

subsection \<open>The 3D viewport: handleCompartmentClick (BookcaseViewer)\<close>

definition handleCompartmentClick :: "BookcaseConfig \<Rightarrow> int \<Rightarrow> int \<Rightarrow> BookcaseConfig" where
  "handleCompartmentClick currentConfig r c =
     (let drawerIndex = findIndex (\<lambda>d. row d = r \<and> column d = c) (drawers currentConfig);
          newDrawers =
            (if 0 \<le> drawerIndex then
               (let currentDrawer = drawers currentConfig ! nat drawerIndex in
                if type currentDrawer = Solid
                then map_indexed (\<lambda>d i. if i = drawerIndex then d\<lparr>type := Glass\<rparr> else d)
                       (drawers currentConfig)
                else filter_indexed (\<lambda>_ i. i \<noteq> drawerIndex) (drawers currentConfig))
             else drawers currentConfig @ [\<lparr>row = r, column = c, type = Solid\<rparr>])
      in currentConfig\<lparr>drawers := newDrawers\<rparr>)"

subsection \<open>The 2D panel: ConfigPanel\<close>

definition updateConfig_drawers :: "BookcaseConfig \<Rightarrow> DrawerConfig list \<Rightarrow> BookcaseConfig" where
  "updateConfig_drawers config v = config\<lparr>drawers := v\<rparr>"

definition addDrawer :: "BookcaseConfig \<Rightarrow> int \<Rightarrow> int \<Rightarrow> drawer_type \<Rightarrow> BookcaseConfig" where
  "addDrawer config r c t =
     (let newDrawer = \<lparr>row = r, column = c, type = t\<rparr>;
          updatedDrawers = drawers config @ [newDrawer]
      in updateConfig_drawers config updatedDrawers)"

definition removeDrawer :: "BookcaseConfig \<Rightarrow> int \<Rightarrow> BookcaseConfig" where
  "removeDrawer config index =
     (let updatedDrawers = filter_indexed (\<lambda>_ i. i \<noteq> index) (drawers config)
      in updateConfig_drawers config updatedDrawers)"

definition toggleDrawerType :: "BookcaseConfig \<Rightarrow> int \<Rightarrow> BookcaseConfig" where
  "toggleDrawerType config index =
     (let updatedDrawers =
            map_indexed (\<lambda>drawer i.
               if i = index
               then drawer\<lparr>type := (if type drawer = Solid then Glass else Solid)\<rparr>
               else drawer) (drawers config)
      in updateConfig_drawers config updatedDrawers)"

text \<open>The remainder \<open>%\<close> of JavaScript on integers: it has the sign of the dividend.\<close>

definition js_rem :: "int \<Rightarrow> int \<Rightarrow> int" where
  "js_rem a b = sgn a * (\<bar>a\<bar> mod \<bar>b\<bar>)"

text \<open>
  The \<open>onClick\<close> of the grid button number \<open>index\<close> (the grid has
  \<open>(shelves + 1) * (divisions + 1)\<close> buttons, numbered from 0), and the \<open>onClick\<close> of the
  small remove button that the same cell shows when it holds a drawer.
\<close>

definition cell_row :: "BookcaseConfig \<Rightarrow> int \<Rightarrow> int" where
  "cell_row config index = shelves config - index div (divisions config + 1)"

definition cell_column :: "BookcaseConfig \<Rightarrow> int \<Rightarrow> int" where
  "cell_column config index = js_rem index (divisions config + 1)"

definition cell_onClick :: "BookcaseConfig \<Rightarrow> int \<Rightarrow> BookcaseConfig" where
  "cell_onClick config index =
     (let actualRow = cell_row config index;
          col = cell_column config index;
          hasDrawer = findIndex (\<lambda>d. row d = actualRow \<and> column d = col) (drawers config)
      in if 0 \<le> hasDrawer then toggleDrawerType config hasDrawer
         else addDrawer config actualRow col Solid)"

definition cell_remove_onClick :: "BookcaseConfig \<Rightarrow> int \<Rightarrow> BookcaseConfig" where
  "cell_remove_onClick config index =
     (let actualRow = cell_row config index;
          col = cell_column config index;
          hasDrawer = findIndex (\<lambda>d. row d = actualRow \<and> column d = col) (drawers config)
      in removeDrawer config hasDrawer)"

subsection \<open>What a compartment holds\<close>

text \<open>The kind of the first drawer entry at \<open>(r, c)\<close>, if there is one: what both
  click handlers look up, and what the panel draws in the cell.\<close>

definition drawerAt :: "BookcaseConfig \<Rightarrow> int \<Rightarrow> int \<Rightarrow> drawer_type option" where
  "drawerAt config r c =
     map_option type (find (\<lambda>d. row d = r \<and> column d = c) (drawers config))"

text \<open>The three-state cycle of the 3D viewport and the two-state toggle of the panel, as
  the specification words them: absent, then Solid, then Glass, then absent again; and
  Solid to Glass and back.\<close>

fun next_drawer_state :: "drawer_type option \<Rightarrow> drawer_type option" where
  "next_drawer_state None = Some Solid"
| "next_drawer_state (Some Solid) = Some Glass"
| "next_drawer_state (Some Glass) = None"


fun toggled :: "drawer_type \<Rightarrow> drawer_type" where
  "toggled Solid = Glass"
| "toggled Glass = Solid"


section \<open>The start configuration (App)\<close>

definition defaultConfig :: BookcaseConfig where
  "defaultConfig =
     \<lparr>width = Fin 2.5, height = Fin 2.4, depth = Fin 0.4, shelves = 4, divisions = 2,
      thickness = Fin 0.04, color = ''#daa520'', drawers = []\<rparr>"


section \<open>Arithmetic notation for JavaScript numbers\<close>

text \<open>The operators \<open>+\<close>, \<open>-\<close>, \<open>*\<close> and \<open>/\<close> on \<open>jsnum\<close> are the functions above, so that
  the coordinate formulas below read as they do in the source.\<close>

instantiation jsnum :: "{plus, minus, uminus, times, inverse}"
begin

definition plus_jsnum :: "jsnum \<Rightarrow> jsnum \<Rightarrow> jsnum" where
  "plus_jsnum a b = js_add a b"

definition minus_jsnum :: "jsnum \<Rightarrow> jsnum \<Rightarrow> jsnum" where
  "minus_jsnum a b = js_sub a b"

definition uminus_jsnum :: "jsnum \<Rightarrow> jsnum" where
  "uminus_jsnum a = js_neg a"

definition times_jsnum :: "jsnum \<Rightarrow> jsnum \<Rightarrow> jsnum" where
  "times_jsnum a b = js_mul a b"

definition divide_jsnum :: "jsnum \<Rightarrow> jsnum \<Rightarrow> jsnum" where
  "divide_jsnum a b = js_div a b"

definition inverse_jsnum :: "jsnum \<Rightarrow> jsnum" where
  "inverse_jsnum a = js_div (Fin 1) a"

instance ..

end

section \<open>The scene graph (BookcaseViewer)\<close>

datatype Vector3 = Vector3 (vec_x: jsnum) (vec_y: jsnum) (vec_z: jsnum)

text \<open>
  The geometries and materials that \<open>createBookcase\<close> constructs. A material is known by
  the variable it comes from: \<open>woodMaterial.clone()\<close> (tinted with the configured colour),
  \<open>backMaterial\<close> (the same, darkened by 0.9), \<open>glassMaterial.clone()\<close>, \<open>handleMaterial\<close>,
  \<open>frameMaterial\<close> and \<open>compartmentMaterial\<close>. Textures, shadow flags and the rotation of the
  handle cylinders are presentation only and are left out.
\<close>

datatype geometry_shape =
    BoxGeometry jsnum jsnum jsnum
  | PlaneGeometry jsnum jsnum
  | CylinderGeometry jsnum jsnum jsnum nat

datatype material_kind =
    WoodMaterial string
  | BackMaterial string
  | GlassMaterial
  | HandleMaterial
  | FrameMaterial
  | CompartmentMaterial

text \<open>The \<open>opacity\<close> each material is constructed with (1 when the constructor does not
  set it).\<close>

fun opacity :: "material_kind \<Rightarrow> real" where
  "opacity GlassMaterial = 0.3"
| "opacity CompartmentMaterial = 0"
| "opacity _ = 1"

text \<open>
  A mesh refers to one geometry object and one material object. The two identifiers name
  these objects: two meshes with the same \<open>material_id\<close> share one material object, as
  the hit-regions and the frame strips of a glass drawer do in the source.
\<close>

record Mesh =
  geometry_id :: nat
  geometry :: geometry_shape
  material_id :: nat
  material :: material_kind
  position :: Vector3
  userData :: "(int \<times> int) option"

text \<open>What the teardown of a rebuild does, in order (a trace kept for the proofs; the
  source has no such list).\<close>

datatype event = Removed Mesh | GeometryDisposed nat | MaterialDisposed nat

text \<open>
  The part of \<open>sceneRef.current\<close> that the rebuild and the pointer handlers read and write:
  the two groups \<open>bookcase\<close> and \<open>compartments\<close> (position and children), the drag state and
  the orbit controls' \<open>enabled\<close> flag. \<open>next_id\<close> numbers the geometry and material objects
  in the order in which they are constructed; \<open>disposal_log\<close> is the trace.
\<close>

record scene =
  bookcase_position :: Vector3
  bookcase_children :: "Mesh list"
  compartments_position :: Vector3
  compartments_children :: "Mesh list"
  isDragging :: bool
  controls_enabled :: bool
  dragOffset :: Vector3
  next_id :: nat
  disposal_log :: "event list"

text \<open>The state right after the scene is initialised: two empty groups at the origin.\<close>

definition initialScene :: scene where
  "initialScene =
     \<lparr>bookcase_position = Vector3 (Fin 0) (Fin 0) (Fin 0), bookcase_children = [],
      compartments_position = Vector3 (Fin 0) (Fin 0) (Fin 0), compartments_children = [],
      isDragging = False, controls_enabled = True,
      dragOffset = Vector3 (Fin 0) (Fin 0) (Fin 0), next_id = 0, disposal_log = []\<rparr>"

subsection \<open>Loops\<close>

text \<open>\<open>for (let i = a; i <= n; i++) body(i)\<close>, the body threading a state.\<close>

function for_upto :: "int \<Rightarrow> int \<Rightarrow> (int \<Rightarrow> 's \<Rightarrow> 's) \<Rightarrow> 's \<Rightarrow> 's" where
  "for_upto i n body st = (if i \<le> n then for_upto (i + 1) n body (body i st) else st)"
  by pat_completeness auto
termination
  by (relation "measure (\<lambda>(i, n, body, st). nat (n + 1 - i))") auto

subsection \<open>createBookcase\<close>

definition bookcaseGroup_add :: "Mesh \<Rightarrow> scene \<Rightarrow> scene" where
  "bookcaseGroup_add m s = s\<lparr>bookcase_children := bookcase_children s @ [m]\<rparr>"

definition compartmentsGroup_add :: "Mesh \<Rightarrow> scene \<Rightarrow> scene" where
  "compartmentsGroup_add m s = s\<lparr>compartments_children := compartments_children s @ [m]\<rparr>"

text \<open>\<open>createBox\<close> makes a new box geometry (object number \<open>n\<close>) and a new clone of the
  wood material (object number \<open>n + 1\<close>); \<open>add_createBox\<close> is
  \<open>bookcaseGroup.add(createBox(...))\<close>.\<close>

definition createBox ::
  "string \<Rightarrow> jsnum \<Rightarrow> jsnum \<Rightarrow> jsnum \<Rightarrow> jsnum \<Rightarrow> jsnum \<Rightarrow> jsnum \<Rightarrow> nat \<Rightarrow> Mesh" where
  "createBox col w h d px py pz n =
     \<lparr>geometry_id = n, geometry = BoxGeometry w h d,
      material_id = Suc n, material = WoodMaterial col,
      position = Vector3 px py pz, userData = None\<rparr>"

definition add_createBox ::
  "string \<Rightarrow> jsnum \<Rightarrow> jsnum \<Rightarrow> jsnum \<Rightarrow> jsnum \<Rightarrow> jsnum \<Rightarrow> jsnum \<Rightarrow> scene \<Rightarrow> scene" where
  "add_createBox col w h d px py pz s =
     bookcaseGroup_add (createBox col w h d px py pz (next_id s)) (s\<lparr>next_id := next_id s + 2\<rparr>)"

text \<open>Main structure: bottom, top, left side, right side, then the back panel (its
  material is cloned before its geometry is made).\<close>

definition main_structure :: "BookcaseConfig \<Rightarrow> scene \<Rightarrow> scene" where
  "main_structure config s =
     (let w = width config; h = height config; d = depth config; t = thickness config;
          s1 = add_createBox (color config) w t d (Fin 0) (t / Fin 2) (Fin 0) s;
          s2 = add_createBox (color config) w t d (Fin 0) (h - t / Fin 2) (Fin 0) s1;
          s3 = add_createBox (color config) t h d (- w / Fin 2 + t / Fin 2) (h / Fin 2) (Fin 0) s2;
          s4 = add_createBox (color config) t h d (w / Fin 2 - t / Fin 2) (h / Fin 2) (Fin 0) s3;
          backThickness = t / Fin 2;
          backPanel =
            \<lparr>geometry_id = Suc (next_id s4),
             geometry = BoxGeometry (w - t * Fin 2) (h - t * Fin 2) backThickness,
             material_id = next_id s4, material = BackMaterial (color config),
             position = Vector3 (Fin 0) (h / Fin 2) (- d / Fin 2 + backThickness / Fin 2),
             userData = None\<rparr>
      in bookcaseGroup_add backPanel (s4\<lparr>next_id := next_id s4 + 2\<rparr>))"

definition shelves_section :: "BookcaseConfig \<Rightarrow> scene \<Rightarrow> scene" where
  "shelves_section config s =
     (let w = width config; h = height config; d = depth config; t = thickness config in
      if 0 < shelves config then
        (let usableHeight = h - t * Fin 2;
             shelfSpacing = usableHeight / js_int (shelves config + 1)
         in for_upto 1 (shelves config)
              (\<lambda>i. add_createBox (color config) (w - t * Fin 2) t d
                      (Fin 0) (t + shelfSpacing * js_int i) (Fin 0)) s)
      else s)"

definition divisions_section :: "BookcaseConfig \<Rightarrow> scene \<Rightarrow> scene" where
  "divisions_section config s =
     (let w = width config; h = height config; d = depth config; t = thickness config in
      if 0 < divisions config then
        (let usableWidth = w - t * Fin 2;
             divisionSpacing = usableWidth / js_int (divisions config + 1)
         in for_upto 1 (divisions config)
              (\<lambda>i. add_createBox (color config) t (h - t * Fin 2) d
                      (- w / Fin 2 + t + divisionSpacing * js_int i) (h / Fin 2) (Fin 0)) s)
      else s)"

definition compartmentHeight :: "BookcaseConfig \<Rightarrow> jsnum" where
  "compartmentHeight config =
     (height config - thickness config * Fin 2) / js_int (shelves config + 1)"

definition compartmentWidth :: "BookcaseConfig \<Rightarrow> jsnum" where
  "compartmentWidth config =
     (width config - thickness config * Fin 2) / js_int (divisions config + 1)"

text \<open>The body of the two nested loops that create the clickable compartments;
  \<open>compartmentMaterial\<close> is the one material object that all of them share.\<close>

definition compartment_mesh :: "BookcaseConfig \<Rightarrow> nat \<Rightarrow> int \<Rightarrow> int \<Rightarrow> nat \<Rightarrow> Mesh" where
  "compartment_mesh config compartmentMaterial r c n =
     (let t = thickness config in
      \<lparr>geometry_id = n,
       geometry = PlaneGeometry (compartmentWidth config - t * Fin 2)
                    (compartmentHeight config - t * Fin 2),
       material_id = compartmentMaterial, material = CompartmentMaterial,
       position = Vector3
         (- width config / Fin 2 + t + compartmentWidth config * (js_int c + Fin 0.5))
         (t + compartmentHeight config * (js_int r + Fin 0.5))
         (depth config / Fin 3),
       userData = Some (r, c)\<rparr>)"

definition add_compartment :: "BookcaseConfig \<Rightarrow> nat \<Rightarrow> int \<Rightarrow> int \<Rightarrow> scene \<Rightarrow> scene" where
  "add_compartment config compartmentMaterial r c s =
     compartmentsGroup_add (compartment_mesh config compartmentMaterial r c (next_id s))
       (s\<lparr>next_id := Suc (next_id s)\<rparr>)"

definition compartments_section :: "BookcaseConfig \<Rightarrow> scene \<Rightarrow> scene" where
  "compartments_section config s =
     (let compartmentMaterial = next_id s;
          s1 = s\<lparr>next_id := Suc (next_id s)\<rparr>
      in for_upto 0 (shelves config)
           (\<lambda>r. for_upto 0 (divisions config)
                  (\<lambda>c. add_compartment config compartmentMaterial r c)) s1)"

text \<open>The callback of \<open>drawers.forEach\<close>. There is no test of \<open>row\<close> and \<open>column\<close> in it.\<close>

definition add_frame ::
  "BookcaseConfig \<Rightarrow> nat \<Rightarrow> jsnum \<Rightarrow> jsnum \<Rightarrow> jsnum \<Rightarrow>
   jsnum \<times> jsnum \<times> jsnum \<times> jsnum \<Rightarrow> scene \<Rightarrow> scene" where
  "add_frame config frameMaterial drawerX drawerY drawerZ f s =
     (case f of (w, h, fx, fy) \<Rightarrow>
        bookcaseGroup_add
          \<lparr>geometry_id = next_id s,
           geometry = BoxGeometry w h (thickness config * Fin 1.5),
           material_id = frameMaterial, material = FrameMaterial,
           position = Vector3 (drawerX + fx) (drawerY + fy) drawerZ,
           userData = None\<rparr>
          (s\<lparr>next_id := Suc (next_id s)\<rparr>))"

definition add_drawer :: "BookcaseConfig \<Rightarrow> DrawerConfig \<Rightarrow> scene \<Rightarrow> scene" where
  "add_drawer config drawer s =
     (let t = thickness config;
          drawerX = - width config / Fin 2 + t
                      + compartmentWidth config * (js_int (column drawer) + Fin 0.5);
          drawerY = t + compartmentHeight config * (js_int (row drawer) + Fin 0.5);
          drawerZ = depth config / Fin 4;
          drawerWidth = compartmentWidth config - t * Fin 1.5;
          drawerHeight = compartmentHeight config - t * Fin 1.5;
          drawerMesh =
            \<lparr>geometry_id = next_id s,
             geometry = BoxGeometry drawerWidth drawerHeight (t * Fin 1.5),
             material_id = Suc (next_id s),
             material = (if type drawer = Solid then WoodMaterial (color config)
                         else GlassMaterial),
             position = Vector3 drawerX drawerY drawerZ, userData = None\<rparr>;
          s1 = bookcaseGroup_add drawerMesh (s\<lparr>next_id := next_id s + 2\<rparr>);
          s2 = (if type drawer = Solid then
                  bookcaseGroup_add
                    \<lparr>geometry_id = next_id s1,
                     geometry = CylinderGeometry (t * Fin 0.5) (t * Fin 0.5)
                                  (drawerWidth * Fin 0.2) 16,
                     material_id = Suc (next_id s1), material = HandleMaterial,
                     position = Vector3 drawerX drawerY (drawerZ + t), userData = None\<rparr>
                    (s1\<lparr>next_id := next_id s1 + 2\<rparr>)
                else s1)
      in if type drawer = Glass then
           (let frameThickness = t * Fin 0.3;
                frameMaterial = next_id s2;
                frames =
                  [(drawerWidth, frameThickness, Fin 0, drawerHeight / Fin 2),
                   (drawerWidth, frameThickness, Fin 0, - drawerHeight / Fin 2),
                   (frameThickness, drawerHeight, - drawerWidth / Fin 2, Fin 0),
                   (frameThickness, drawerHeight, drawerWidth / Fin 2, Fin 0)];
                s3 = fold (add_frame config frameMaterial drawerX drawerY drawerZ) frames
                       (s2\<lparr>next_id := Suc (next_id s2)\<rparr>)
            in bookcaseGroup_add
                 \<lparr>geometry_id = next_id s3,
                  geometry = CylinderGeometry frameThickness frameThickness
                               (drawerWidth * Fin 0.15) 12,
                  material_id = frameMaterial, material = FrameMaterial,
                  position = Vector3 drawerX drawerY (drawerZ + t), userData = None\<rparr>
                 (s3\<lparr>next_id := Suc (next_id s3)\<rparr>))
         else s2)"

definition drawers_section :: "BookcaseConfig \<Rightarrow> scene \<Rightarrow> scene" where
  "drawers_section config s =
     (if 0 < length (drawers config) then fold (add_drawer config) (drawers config) s else s)"

text \<open>
  \<open>createBookcase(bookcaseGroup, compartmentsGroup, config)\<close>: the two groups are those
  of the scene. \<open>woodMaterial\<close> and \<open>glassMaterial\<close> are constructed first (two objects that
  no mesh ever refers to: only their clones are used).
\<close>

definition createBookcase :: "scene \<Rightarrow> BookcaseConfig \<Rightarrow> scene" where
  "createBookcase s config =
     (let s1 = s\<lparr>next_id := next_id s + 2\<rparr>;
          s2 = main_structure config s1;
          s3 = shelves_section config s2;
          s4 = divisions_section config s3;
          s5 = compartments_section config s4;
          s6 = drawers_section config s5
      in s6\<lparr>bookcase_position :=
              Vector3 (vec_x (bookcase_position s6)) (Fin 0) (vec_z (bookcase_position s6))\<rparr>)"

subsection \<open>The rebuild on a configuration change\<close>

text \<open>
  The two \<open>while (group.children.length > 0)\<close> loops. \<open>remove\<close> deletes the first
  occurrence of the child from the list of children; then the child's geometry and its
  material are disposed. Only meshes with a single material are ever added to the two
  groups, so the \<open>instanceof\<close> and \<open>Array.isArray\<close> tests of the source always take the
  same branch.
\<close>

function clear_bookcase :: "scene \<Rightarrow> scene" where
  "clear_bookcase s =
     (if 0 < length (bookcase_children s) then
        (let child = bookcase_children s ! 0;
             s1 = s\<lparr>bookcase_children := remove1 child (bookcase_children s),
                    disposal_log := disposal_log s @ [Removed child]\<rparr>;
             s2 = s1\<lparr>disposal_log := disposal_log s1 @
                    [GeometryDisposed (geometry_id child), MaterialDisposed (material_id child)]\<rparr>
         in clear_bookcase s2)
      else s)"
  by pat_completeness auto
termination
  by (relation "measure (\<lambda>s. length (bookcase_children s))")
     (auto simp: length_remove1 neq_Nil_conv)

function clear_compartments :: "scene \<Rightarrow> scene" where
  "clear_compartments s =
     (if 0 < length (compartments_children s) then
        (let child = compartments_children s ! 0;
             s1 = s\<lparr>compartments_children := remove1 child (compartments_children s),
                    disposal_log := disposal_log s @ [Removed child]\<rparr>;
             s2 = s1\<lparr>disposal_log := disposal_log s1 @
                    [GeometryDisposed (geometry_id child), MaterialDisposed (material_id child)]\<rparr>
         in clear_compartments s2)
      else s)"
  by pat_completeness auto
termination
  by (relation "measure (\<lambda>s. length (compartments_children s))")
     (auto simp: length_remove1 neq_Nil_conv)

text \<open>
  The effect that runs on every change of \<open>config\<close> (the specification's \<open>sync\<close>), for an
  initialised scene (the effect returns at once while \<open>sceneRef.current\<close> is still null).
  Nothing in its body raises, so the \<open>catch\<close> branch is never taken.
\<close>

definition sync :: "scene \<Rightarrow> BookcaseConfig \<Rightarrow> scene" where
  "sync s config =
     (let currentPosition = bookcase_position s;
          s1 = clear_bookcase s;
          s2 = clear_compartments s1;
          s3 = createBookcase s2 config;
          s4 = (if vec_x currentPosition \<noteq> Fin 0 \<or> vec_z currentPosition \<noteq> Fin 0
                then s3\<lparr>bookcase_position := currentPosition\<rparr>
                else s3\<lparr>bookcase_position :=
                        Vector3 (Fin 0) (Fin 0) (Fin (- 5) + depth config / Fin 2 + Fin 0.05)\<rparr>)
      in s4\<lparr>compartments_position := bookcase_position s4\<rparr>)"

subsection \<open>Pointer handlers\<close>

text \<open>
  What the ray through the pointer meets, as the ray caster (a collaborator) reports it:
  the \<open>userData\<close> of the first hit-region it intersects, whether it intersects a child of
  the bookcase group, and where it crosses the drag plane (if it does).
\<close>

record pointer_ray =
  compartmentHit :: "(int \<times> int) option"
  bookcaseHit :: bool
  planePoint :: "Vector3 option"

text \<open>\<open>intersectPlane\<close> writes the crossing point into a fresh \<open>Vector3\<close>, which stays
  \<open>(0, 0, 0)\<close> when the ray does not cross the plane; the source then tests the object
  itself, which is always truthy.\<close>

definition intersectPoint :: "pointer_ray \<Rightarrow> Vector3" where
  "intersectPoint ray =
     (case planePoint ray of None \<Rightarrow> Vector3 (Fin 0) (Fin 0) (Fin 0) | Some p \<Rightarrow> p)"

text \<open>The hover highlight, the hovered compartment shown in the overlay and the cursor
  are presentation only and are left out: without a drag in progress \<open>handleMouseMove\<close>
  changes nothing else.\<close>

definition handleMouseMove :: "scene \<Rightarrow> pointer_ray \<Rightarrow> scene" where
  "handleMouseMove s ray =
     (if isDragging s then
        s\<lparr>bookcase_position :=
            Vector3 (vec_x (intersectPoint ray) - vec_x (dragOffset s))
                    (vec_y (bookcase_position s))
                    (vec_z (intersectPoint ray) - vec_z (dragOffset s))\<rparr>
      else s)"

definition handleMouseUp :: "scene \<Rightarrow> scene" where
  "handleMouseUp s =
     (if isDragging s then s\<lparr>isDragging := False, controls_enabled := True\<rparr> else s)"

text \<open>The application: the configuration that \<open>App\<close> holds and the viewer's scene. A
  press on a hit-region edits the configuration, and the change of configuration runs the
  rebuild; a press on the bookcase starts a drag.\<close>

record app =
  app_config :: BookcaseConfig
  app_viewer :: scene

definition handleMouseDown :: "app \<Rightarrow> pointer_ray \<Rightarrow> app" where
  "handleMouseDown a ray =
     (case compartmentHit ray of
        Some (r, c) \<Rightarrow>
          (let newConfig = handleCompartmentClick (app_config a) r c
           in \<lparr>app_config = newConfig, app_viewer = sync (app_viewer a) newConfig\<rparr>)
      | None \<Rightarrow>
          if bookcaseHit ray then
            a\<lparr>app_viewer := (app_viewer a)
                \<lparr>isDragging := True, controls_enabled := False,
                 dragOffset :=
                   Vector3 (vec_x (intersectPoint ray) - vec_x (bookcase_position (app_viewer a)))
                           (vec_y (intersectPoint ray) - vec_y (bookcase_position (app_viewer a)))
                           (vec_z (intersectPoint ray) - vec_z (bookcase_position (app_viewer a)))\<rparr>\<rparr>
          else a)"

section \<open>The Bookcase component (Bookcase.tsx)\<close>

text \<open>The two position arrays that the component computes, by \<open>push\<close> in a loop.\<close>

definition shelfPositions :: "BookcaseConfig \<Rightarrow> jsnum list" where
  "shelfPositions config =
     for_upto 0 (shelves config)
       (\<lambda>i acc. acc @ [js_int i / js_int (shelves config) * height config
                          - height config / Fin 2]) []"

definition divisionPositions :: "BookcaseConfig \<Rightarrow> jsnum list" where
  "divisionPositions config =
     for_upto 0 (divisions config)
       (\<lambda>i acc. acc @ [js_int i / js_int (divisions config) * width config
                          - width config / Fin 2]) []"

text \<open>Reading an array outside its bounds gives \<open>undefined\<close>, and every use the component
  makes of such a value is arithmetic, where it becomes \<open>NaN\<close>.\<close>

definition array_read :: "jsnum list \<Rightarrow> int \<Rightarrow> jsnum" where
  "array_read xs i = (if 0 \<le> i \<and> i < int (length xs) then xs ! nat i else NaN)"

text \<open>The drawer meshes the component renders: position, box arguments and colour.\<close>

datatype jsx_mesh = JsxMesh Vector3 geometry_shape string

definition Bookcase_drawers :: "BookcaseConfig \<Rightarrow> jsx_mesh list" where
  "Bookcase_drawers config =
     map (\<lambda>drawer.
        (let shelfY = array_read (shelfPositions config) (row drawer);
             divisionX = array_read (divisionPositions config) (column drawer);
             drawerWidth = array_read (divisionPositions config) (column drawer + 1) - divisionX;
             drawerHeight = array_read (shelfPositions config) (row drawer + 1) - shelfY
         in JsxMesh
              (Vector3 (divisionX + drawerWidth / Fin 2) (shelfY + drawerHeight / Fin 2) (Fin 0))
              (BoxGeometry drawerWidth drawerHeight (thickness config))
              (if type drawer = Solid then color config else ''white'')))
       (drawers config)"

section \<open>Observations and invariants\<close>

subsection \<open>Layout of the meshes\<close>

text \<open>What a mesh looks like, apart from which geometry and material objects it refers
  to: shape, kind of material, position within its group, and tag.\<close>

definition mesh_layout :: "Mesh \<Rightarrow> geometry_shape \<times> material_kind \<times> Vector3 \<times> (int \<times> int) option" where
  "mesh_layout m = (geometry m, material m, position m, userData m)"

definition bookcase_layout :: "scene \<Rightarrow> (geometry_shape \<times> material_kind \<times> Vector3 \<times> (int \<times> int) option) list" where
  "bookcase_layout s = map mesh_layout (bookcase_children s)"

definition compartments_layout :: "scene \<Rightarrow> (geometry_shape \<times> material_kind \<times> Vector3 \<times> (int \<times> int) option) list" where
  "compartments_layout s = map mesh_layout (compartments_children s)"

text \<open>The meshes that one call of \<open>createBookcase\<close> adds to each group: those after the
  children that the group held before the call.\<close>

definition emitted_bookcase :: "scene \<Rightarrow> BookcaseConfig \<Rightarrow> Mesh list" where
  "emitted_bookcase s cfg =
     drop (length (bookcase_children s)) (bookcase_children (createBookcase s cfg))"

definition emitted_compartments :: "scene \<Rightarrow> BookcaseConfig \<Rightarrow> Mesh list" where
  "emitted_compartments s cfg =
     drop (length (compartments_children s)) (compartments_children (createBookcase s cfg))"

text \<open>
  The panels of the carcass among the meshes that \<open>createBookcase\<close> has added to the
  bookcase group, read off the order in which it adds them (bottom, top, left side, right
  side, back panel, then the shelves from the lowest up, then the divisions from the left):
  the horizontal ones from the bottom up and the vertical ones from left to right.
\<close>

definition horizontal_panels :: "Mesh list \<Rightarrow> BookcaseConfig \<Rightarrow> Mesh list" where
  "horizontal_panels ch cfg = ch ! 0 # take (nat (shelves cfg)) (drop 5 ch) @ [ch ! 1]"

definition vertical_panels :: "Mesh list \<Rightarrow> BookcaseConfig \<Rightarrow> Mesh list" where
  "vertical_panels ch cfg =
     ch ! 2 # take (nat (divisions cfg)) (drop (5 + nat (shelves cfg)) ch) @ [ch ! 3]"

text \<open>The placement that the rebuild gives a root that has not been moved: against the
  back wall of the room, which stands at \<open>z = -5\<close>.\<close>

definition default_position :: "BookcaseConfig \<Rightarrow> Vector3" where
  "default_position cfg = Vector3 (Fin 0) (Fin 0) (Fin (- 5) + depth cfg / Fin 2 + Fin 0.05)"

subsection \<open>Finite coordinates\<close>




subsection \<open>Configurations\<close>

text \<open>The valid configurations of the specification's data model: non-negative counts,
  positive finite dimensions, and width and height greater than twice the thickness.\<close>

definition valid_config :: "BookcaseConfig \<Rightarrow> bool" where
  "valid_config cfg \<longleftrightarrow>
     0 \<le> shelves cfg \<and> 0 \<le> divisions cfg \<and>
     is_finite (width cfg) \<and> is_finite (height cfg) \<and>
     is_finite (depth cfg) \<and> is_finite (thickness cfg) \<and>
     js_lt (Fin 0) (width cfg) \<and> js_lt (Fin 0) (height cfg) \<and>
     js_lt (Fin 0) (depth cfg) \<and> js_lt (Fin 0) (thickness cfg) \<and>
     js_lt (thickness cfg * Fin 2) (width cfg) \<and> js_lt (thickness cfg * Fin 2) (height cfg)"

text \<open>The start configuration with one shelf and no division: two compartments, one
  above the other.\<close>

definition twoCells :: BookcaseConfig where
  "twoCells = defaultConfig\<lparr>shelves := 1, divisions := 0\<rparr>"

subsection \<open>The builder's steps\<close>

text \<open>Everything in the scene that building geometry leaves alone.\<close>

definition scene_frame ::
  "scene \<Rightarrow> Vector3 \<times> Vector3 \<times> bool \<times> bool \<times> Vector3 \<times> event list" where
  "scene_frame s =
     (bookcase_position s, compartments_position s, isDragging s, controls_enabled s,
      dragOffset s, disposal_log s)"

text \<open>A step of the builder appends meshes of layouts \<open>B\<close> to the bookcase group and
  \<open>C\<close> to the compartments group, whatever the groups hold already.\<close>

definition emits ::
  "(scene \<Rightarrow> scene) \<Rightarrow> (geometry_shape \<times> material_kind \<times> Vector3 \<times> (int \<times> int) option) list \<Rightarrow>
   (geometry_shape \<times> material_kind \<times> Vector3 \<times> (int \<times> int) option) list \<Rightarrow> bool" where
  "emits f B C \<longleftrightarrow>
     (\<forall>s. bookcase_layout (f s) = bookcase_layout s @ B \<and>
          compartments_layout (f s) = compartments_layout s @ C \<and>
          scene_frame (f s) = scene_frame s)"

text \<open>The geometry objects of the meshes in the scene are pairwise different and were
  numbered before \<open>next_id\<close>.\<close>

definition fresh_geometries :: "scene \<Rightarrow> bool" where
  "fresh_geometries s \<longleftrightarrow>
     distinct (map geometry_id (bookcase_children s @ compartments_children s)) \<and>
     list_all (\<lambda>m. geometry_id m < next_id s) (bookcase_children s @ compartments_children s)"

subsection \<open>The teardown\<close>

text \<open>What tearing down a list of meshes writes to the trace: for each mesh in turn, its
  removal from the group, the disposal of its geometry, the disposal of its material.\<close>

definition teardown_events :: "Mesh list \<Rightarrow> event list" where
  "teardown_events ms =
     concat (map (\<lambda>m. [Removed m, GeometryDisposed (geometry_id m),
                         MaterialDisposed (material_id m)]) ms)"

text \<open>The recursive equations of the loops are used by hand only.\<close>

declare for_upto.simps [simp del]

declare clear_bookcase.simps [simp del]

declare clear_compartments.simps [simp del]

section \<open>Properties of the drawer edits\<close>

lemma findIndex_ge: "- 1 \<le> findIndex p xs"
  by (induction xs) (auto simp: Let_def)

lemma findIndex_neg_iff: "findIndex p xs < 0 \<longleftrightarrow> (\<forall>x\<in>set xs. \<not> p x)"
  using findIndex_ge [of p] by (induction xs) (auto simp: Let_def)

lemma findIndex_first:
  "0 \<le> findIndex p xs \<Longrightarrow>
     nat (findIndex p xs) < length xs \<and> p (xs ! nat (findIndex p xs)) \<and>
     (\<forall>j < nat (findIndex p xs). \<not> p (xs ! j))"
proof (induction xs)
  case Nil
  then show ?case by simp
next
  case (Cons x xs)
  show ?case
  proof (cases "p x")
    case True
    then show ?thesis by simp
  next
    case False
    with Cons.prems have k: "0 \<le> findIndex p xs"
      by (simp add: Let_def split: if_splits)
    have n: "nat (findIndex p xs + 1) = Suc (nat (findIndex p xs))"
      using k by simp
    from Cons.IH [OF k] False k show ?thesis
      by (auto simp: Let_def n nth_Cons split: nat.splits)
  qed
qed

lemma find_findIndex:
  "find p xs = (if findIndex p xs < 0 then None else Some (xs ! nat (findIndex p xs)))"
proof (induction xs)
  case Nil
  then show ?case by simp
next
  case (Cons x xs)
  have n: "0 \<le> findIndex p xs \<Longrightarrow> nat (findIndex p xs + 1) = Suc (nat (findIndex p xs))"
    by simp
  from Cons show ?case
    by (auto simp: Let_def n)
qed

lemma map_indexed_update:
  "k < length xs \<Longrightarrow>
     map_indexed (\<lambda>d i. if i = int k then g d else d) xs = xs[k := g (xs ! k)]"
  unfolding map_indexed_def
  by (rule nth_equalityI) (auto simp: nth_enumerate_eq nth_list_update)

lemma filter_indexed_drop:
  "k < length xs \<Longrightarrow> filter_indexed (\<lambda>_ i. i \<noteq> int k) xs = take k xs @ drop (Suc k) xs"
proof (induction xs arbitrary: k rule: rev_induct)
  case Nil
  then show ?case by simp
next
  case (snoc x xs)
  show ?case
  proof (cases "k = length xs")
    case True
    have "filter (\<lambda>(i, x). int i \<noteq> int (length xs)) (enumerate 0 xs) = enumerate 0 xs"
      by (rule filter_True) (auto simp: enumerate_eq_zip dest!: set_zip_leftD)
    then show ?thesis using True
      by (simp add: filter_indexed_def enumerate_append_eq)
  next
    case False
    with snoc.prems have "k < length xs" by simp
    from snoc.IH [OF this] False \<open>k < length xs\<close> show ?thesis
      by (simp add: filter_indexed_def enumerate_append_eq)
  qed
qed

lemma drawerAt_None: "drawerAt config r c = None \<longleftrightarrow> findIndex (\<lambda>d. row d = r \<and> column d = c) (drawers config) < 0"
  by (simp add: drawerAt_def find_findIndex)

lemma drawerAt_Some:
  assumes "drawerAt config r c = Some t"
  obtains k where "findIndex (\<lambda>d. row d = r \<and> column d = c) (drawers config) = int k"
    and "k < length (drawers config)"
    and "drawers config ! k = \<lparr>row = r, column = c, type = t\<rparr>"
    and "\<forall>j<k. \<not> (row (drawers config ! j) = r \<and> column (drawers config ! j) = c)"
proof -
  let ?p = "\<lambda>d. row d = r \<and> column d = c"
  define k where "k = nat (findIndex ?p (drawers config))"
  from assms have nn: "0 \<le> findIndex ?p (drawers config)"
    by (simp add: drawerAt_def find_findIndex split: if_splits)
  then have 1: "findIndex ?p (drawers config) = int k" by (simp add: k_def)
  from findIndex_first [of ?p, OF nn]
  have 2: "k < length (drawers config)"
    and 3: "row (drawers config ! k) = r \<and> column (drawers config ! k) = c"
    and 4: "\<forall>j<k. \<not> (row (drawers config ! j) = r \<and> column (drawers config ! j) = c)"
    by (simp_all add: k_def)
  from assms nn have "type (drawers config ! k) = t"
    by (simp add: k_def drawerAt_def find_findIndex split: if_splits)
  with 3 have 5: "drawers config ! k = \<lparr>row = r, column = c, type = t\<rparr>" by simp
  from 1 2 5 4 show thesis by (rule that)
qed

lemma click_absent:
  "drawerAt config r c = None \<Longrightarrow>
   handleCompartmentClick config r c =
     config\<lparr>drawers := drawers config @ [\<lparr>row = r, column = c, type = Solid\<rparr>]\<rparr>"
  by (simp add: drawerAt_None handleCompartmentClick_def Let_def)

lemma click_solid:
  assumes "drawerAt config r c = Some Solid"
  shows "handleCompartmentClick config r c =
     config\<lparr>drawers := (drawers config)
        [nat (findIndex (\<lambda>d. row d = r \<and> column d = c) (drawers config)) :=
           \<lparr>row = r, column = c, type = Glass\<rparr>]\<rparr>"
proof -
  from assms obtain k where "findIndex (\<lambda>d. row d = r \<and> column d = c) (drawers config) = int k"
    "k < length (drawers config)" "drawers config ! k = \<lparr>row = r, column = c, type = Solid\<rparr>"
    by (rule drawerAt_Some)
  then show ?thesis
    by (simp add: handleCompartmentClick_def Let_def map_indexed_update)
qed

lemma click_glass:
  assumes "drawerAt config r c = Some Glass"
  shows "handleCompartmentClick config r c =
     config\<lparr>drawers :=
       take (nat (findIndex (\<lambda>d. row d = r \<and> column d = c) (drawers config))) (drawers config) @
       drop (Suc (nat (findIndex (\<lambda>d. row d = r \<and> column d = c) (drawers config)))) (drawers config)\<rparr>"
proof -
  from assms obtain k where "findIndex (\<lambda>d. row d = r \<and> column d = c) (drawers config) = int k"
    "k < length (drawers config)" "drawers config ! k = \<lparr>row = r, column = c, type = Glass\<rparr>"
    by (rule drawerAt_Some)
  then show ?thesis
    by (simp add: handleCompartmentClick_def Let_def filter_indexed_drop)
qed

lemma find_append_eq:
  "find p (xs @ ys) = (case find p xs of None \<Rightarrow> find p ys | Some x \<Rightarrow> Some x)"
  by (induction xs) auto

lemma drawerAt_append_absent:
  "drawerAt config r c = None \<Longrightarrow>
   drawerAt (config\<lparr>drawers := drawers config @ [\<lparr>row = r, column = c, type = t\<rparr>]\<rparr>) r c = Some t"
  by (simp add: drawerAt_def find_append_eq)

lemma findIndex_append_absent:
  "\<forall>x\<in>set xs. \<not> p x \<Longrightarrow> p y \<Longrightarrow> findIndex p (xs @ [y]) = int (length xs)"
  by (induction xs) (auto simp: Let_def)

lemma click_thrice:
  assumes "drawerAt config r c = None"
  shows "handleCompartmentClick (handleCompartmentClick config r c) r c =
           config\<lparr>drawers := drawers config @ [\<lparr>row = r, column = c, type = Glass\<rparr>]\<rparr>"
    and "handleCompartmentClick (handleCompartmentClick (handleCompartmentClick config r c) r c) r c
           = config"
proof -
  let ?p = "\<lambda>d. row d = r \<and> column d = c"
  let ?c1 = "config\<lparr>drawers := drawers config @ [\<lparr>row = r, column = c, type = Solid\<rparr>]\<rparr>"
  let ?c2 = "config\<lparr>drawers := drawers config @ [\<lparr>row = r, column = c, type = Glass\<rparr>]\<rparr>"
  from assms have none: "\<forall>x\<in>set (drawers config). \<not> ?p x"
    by (simp add: drawerAt_None findIndex_neg_iff)
  have 1: "handleCompartmentClick config r c = ?c1"
    by (rule click_absent [OF assms])
  have i1: "findIndex ?p (drawers config @ [\<lparr>row = r, column = c, type = Solid\<rparr>])
      = int (length (drawers config))"
    by (rule findIndex_append_absent [OF none]) simp
  have "drawerAt ?c1 r c = Some Solid"
    by (rule drawerAt_append_absent [OF assms])
  from click_solid [OF this] have 2: "handleCompartmentClick ?c1 r c = ?c2"
    by (simp add: i1)
  have i2: "findIndex ?p (drawers config @ [\<lparr>row = r, column = c, type = Glass\<rparr>])
      = int (length (drawers config))"
    by (rule findIndex_append_absent [OF none]) simp
  have "drawerAt ?c2 r c = Some Glass"
    by (rule drawerAt_append_absent [OF assms])
  from click_glass [OF this] have 3: "handleCompartmentClick ?c2 r c = config"
    by (simp add: i2)
  show "handleCompartmentClick (handleCompartmentClick config r c) r c = ?c2"
    by (simp only: 1 2)
  show "handleCompartmentClick (handleCompartmentClick (handleCompartmentClick config r c) r c) r c = config"
    by (simp only: 1 2 3)
qed

lemma find_update_first:
  assumes "k < length xs" "\<forall>j<k. \<not> p (xs ! j)" "p y"
  shows "find p (xs[k := y]) = Some y"
  using assms
proof (induction xs arbitrary: k)
  case Nil
  then show ?case by simp
next
  case (Cons x xs)
  show ?case
  proof (cases k)
    case 0
    with Cons.prems show ?thesis by simp
  next
    case (Suc m)
    with Cons.prems have "\<not> p x" by auto
    moreover from Suc Cons.prems have "\<forall>j<m. \<not> p (xs ! j)" by auto
    moreover from Suc Cons.prems have "m < length xs" by simp
    ultimately show ?thesis using Suc Cons.IH [of m] Cons.prems(3) by simp
  qed
qed

lemma find_removed_unique:
  assumes "k < length xs" "distinct (map f xs)" "\<And>x. p x \<longleftrightarrow> f x = f (xs ! k)"
  shows "find p (take k xs @ drop (Suc k) xs) = None"
proof -
  have "\<And>x. x \<in> set (take k xs @ drop (Suc k) xs) \<Longrightarrow> f x \<noteq> f (xs ! k)"
  proof -
    fix x assume "x \<in> set (take k xs @ drop (Suc k) xs)"
    then have "f x \<in> set (map f (take k xs) @ map f (drop (Suc k) xs))" by auto
    moreover have "map f xs = map f (take k xs) @ f (xs ! k) # map f (drop (Suc k) xs)"
      using assms(1) by (metis id_take_nth_drop list.simps(9) map_append)
    with assms(2) have "f (xs ! k) \<notin> set (map f (take k xs) @ map f (drop (Suc k) xs))"
      by auto
    ultimately show "f x \<noteq> f (xs ! k)" by metis
  qed
  then show ?thesis by (auto simp: find_None_iff assms(3))
qed

lemma click_next_state:
  assumes "distinct (map (\<lambda>d. (row d, column d)) (drawers config))"
  shows "drawerAt (handleCompartmentClick config r c) r c = next_drawer_state (drawerAt config r c)"
proof (cases "drawerAt config r c")
  case None
  then show ?thesis by (simp add: click_absent drawerAt_append_absent)
next
  case (Some t)
  let ?p = "\<lambda>d. row d = r \<and> column d = c"
  from Some obtain k where k: "findIndex ?p (drawers config) = int k"
    "k < length (drawers config)" "drawers config ! k = \<lparr>row = r, column = c, type = t\<rparr>"
    "\<forall>j<k. \<not> ?p (drawers config ! j)"
    by (rule drawerAt_Some)
  show ?thesis
  proof (cases t)
    case Solid
    with Some have "drawerAt config r c = Some Solid" by simp
    from click_solid [OF this] k(1) have
      "drawers (handleCompartmentClick config r c) =
         (drawers config)[k := \<lparr>row = r, column = c, type = Glass\<rparr>]" by simp
    moreover have "find ?p ((drawers config)[k := \<lparr>row = r, column = c, type = Glass\<rparr>])
        = Some \<lparr>row = r, column = c, type = Glass\<rparr>"
      by (rule find_update_first [OF k(2) k(4)]) simp
    ultimately have "drawerAt (handleCompartmentClick config r c) r c = Some Glass"
      by (simp add: drawerAt_def)
    with Some Solid show ?thesis by simp
  next
    case Glass
    with Some have g: "drawerAt config r c = Some Glass" by simp
    from click_glass [OF g] k(1) have
      "drawers (handleCompartmentClick config r c) = take k (drawers config) @ drop (Suc k) (drawers config)"
      by simp
    moreover have "find ?p (take k (drawers config) @ drop (Suc k) (drawers config)) = None"
      by (rule find_removed_unique [where f = "\<lambda>d. (row d, column d)", OF k(2) assms])
         (use k(3) in auto)
    ultimately have "drawerAt (handleCompartmentClick config r c) r c = None"
      by (simp add: drawerAt_def)
    with Some Glass show ?thesis by simp
  qed
qed

text \<open>
  Claim C1. A press resolved to compartment \<open>(r, c)\<close> performs the three-state drawer
  cycle: with no drawer entry at \<open>(r, c)\<close> a Solid one is appended; when the first entry
  at \<open>(r, c)\<close> is Solid it is replaced in place by a Glass one; when it is Glass that
  entry is removed; nothing else of the configuration changes. With at most one entry per
  compartment the compartment's state moves one step along absent, Solid, Glass, absent.
  Starting from absent, three presses give Solid, Glass and the starting configuration
  again, and the fourth press equals the first.
\<close>

theorem handleCompartmentClick_three_state_cycle:
  "(drawerAt config r c = None \<longrightarrow>
      handleCompartmentClick config r c =
        config\<lparr>drawers := drawers config @ [\<lparr>row = r, column = c, type = Solid\<rparr>]\<rparr>) \<and>
   (drawerAt config r c = Some Solid \<longrightarrow>
      (\<exists>k<length (drawers config).
          (\<forall>j<k. \<not> (row (drawers config ! j) = r \<and> column (drawers config ! j) = c)) \<and>
          drawers config ! k = \<lparr>row = r, column = c, type = Solid\<rparr> \<and>
          handleCompartmentClick config r c =
            config\<lparr>drawers := (drawers config)[k := \<lparr>row = r, column = c, type = Glass\<rparr>]\<rparr>)) \<and>
   (drawerAt config r c = Some Glass \<longrightarrow>
      (\<exists>k<length (drawers config).
          (\<forall>j<k. \<not> (row (drawers config ! j) = r \<and> column (drawers config ! j) = c)) \<and>
          drawers config ! k = \<lparr>row = r, column = c, type = Glass\<rparr> \<and>
          handleCompartmentClick config r c =
            config\<lparr>drawers := take k (drawers config) @ drop (Suc k) (drawers config)\<rparr>)) \<and>
   (distinct (map (\<lambda>d. (row d, column d)) (drawers config)) \<longrightarrow>
      drawerAt (handleCompartmentClick config r c) r c = next_drawer_state (drawerAt config r c)) \<and>
   (drawerAt config r c = None \<longrightarrow>
      drawerAt (handleCompartmentClick config r c) r c = Some Solid \<and>
      drawerAt (handleCompartmentClick (handleCompartmentClick config r c) r c) r c = Some Glass \<and>
      handleCompartmentClick (handleCompartmentClick (handleCompartmentClick config r c) r c) r c
        = config \<and>
      handleCompartmentClick (handleCompartmentClick (handleCompartmentClick
        (handleCompartmentClick config r c) r c) r c) r c = handleCompartmentClick config r c)"
proof (intro conjI impI)
  assume "drawerAt config r c = None"
  then show "handleCompartmentClick config r c =
        config\<lparr>drawers := drawers config @ [\<lparr>row = r, column = c, type = Solid\<rparr>]\<rparr>"
    by (rule click_absent)
next
  assume s: "drawerAt config r c = Some Solid"
  then obtain k where k: "findIndex (\<lambda>d. row d = r \<and> column d = c) (drawers config) = int k"
    "k < length (drawers config)" "drawers config ! k = \<lparr>row = r, column = c, type = Solid\<rparr>"
    "\<forall>j<k. \<not> (row (drawers config ! j) = r \<and> column (drawers config ! j) = c)"
    by (rule drawerAt_Some)
  from click_solid [OF s] k(1) have "handleCompartmentClick config r c =
      config\<lparr>drawers := (drawers config)[k := \<lparr>row = r, column = c, type = Glass\<rparr>]\<rparr>"
    by simp
  with k(2,3,4) show "\<exists>k<length (drawers config).
          (\<forall>j<k. \<not> (row (drawers config ! j) = r \<and> column (drawers config ! j) = c)) \<and>
          drawers config ! k = \<lparr>row = r, column = c, type = Solid\<rparr> \<and>
          handleCompartmentClick config r c =
            config\<lparr>drawers := (drawers config)[k := \<lparr>row = r, column = c, type = Glass\<rparr>]\<rparr>"
    by blast
next
  assume g: "drawerAt config r c = Some Glass"
  then obtain k where k: "findIndex (\<lambda>d. row d = r \<and> column d = c) (drawers config) = int k"
    "k < length (drawers config)" "drawers config ! k = \<lparr>row = r, column = c, type = Glass\<rparr>"
    "\<forall>j<k. \<not> (row (drawers config ! j) = r \<and> column (drawers config ! j) = c)"
    by (rule drawerAt_Some)
  from click_glass [OF g] k(1) have "handleCompartmentClick config r c =
      config\<lparr>drawers := take k (drawers config) @ drop (Suc k) (drawers config)\<rparr>"
    by simp
  with k(2,3,4) show "\<exists>k<length (drawers config).
          (\<forall>j<k. \<not> (row (drawers config ! j) = r \<and> column (drawers config ! j) = c)) \<and>
          drawers config ! k = \<lparr>row = r, column = c, type = Glass\<rparr> \<and>
          handleCompartmentClick config r c =
            config\<lparr>drawers := take k (drawers config) @ drop (Suc k) (drawers config)\<rparr>"
    by blast
next
  assume "distinct (map (\<lambda>d. (row d, column d)) (drawers config))"
  then show "drawerAt (handleCompartmentClick config r c) r c = next_drawer_state (drawerAt config r c)"
    by (rule click_next_state)
next
  assume n: "drawerAt config r c = None"
  then show "drawerAt (handleCompartmentClick config r c) r c = Some Solid"
    by (simp add: click_absent drawerAt_append_absent)
  from n show "drawerAt (handleCompartmentClick (handleCompartmentClick config r c) r c) r c = Some Glass"
    by (simp add: click_thrice(1) drawerAt_append_absent)
  from n show 3: "handleCompartmentClick (handleCompartmentClick (handleCompartmentClick config r c) r c) r c
        = config"
    by (rule click_thrice(2))
  show "handleCompartmentClick (handleCompartmentClick (handleCompartmentClick
        (handleCompartmentClick config r c) r c) r c) r c = handleCompartmentClick config r c"
    by (simp only: 3)
qed

theorem handleCompartmentClick_three_state_cycle_witness:
  "drawerAt defaultConfig 1 2 = None \<and>
   handleCompartmentClick defaultConfig 1 2 =
     defaultConfig\<lparr>drawers := [\<lparr>row = 1, column = 2, type = Solid\<rparr>]\<rparr> \<and>
   drawerAt (defaultConfig\<lparr>drawers := [\<lparr>row = 1, column = 2, type = Solid\<rparr>]\<rparr>) 1 2 = Some Solid \<and>
   handleCompartmentClick (defaultConfig\<lparr>drawers := [\<lparr>row = 1, column = 2, type = Solid\<rparr>]\<rparr>) 1 2 =
     defaultConfig\<lparr>drawers := [\<lparr>row = 1, column = 2, type = Glass\<rparr>]\<rparr> \<and>
   drawerAt (defaultConfig\<lparr>drawers := [\<lparr>row = 1, column = 2, type = Glass\<rparr>]\<rparr>) 1 2 = Some Glass \<and>
   handleCompartmentClick (defaultConfig\<lparr>drawers := [\<lparr>row = 1, column = 2, type = Glass\<rparr>]\<rparr>) 1 2 =
     defaultConfig \<and>
   distinct (map (\<lambda>d. (row d, column d)) (drawers defaultConfig)) \<and>
   drawerAt (handleCompartmentClick defaultConfig 1 2) 1 2 = Some Solid"
proof -
  let ?s = "defaultConfig\<lparr>drawers := [\<lparr>row = 1, column = 2, type = Solid\<rparr>]\<rparr>"
  let ?g = "defaultConfig\<lparr>drawers := [\<lparr>row = 1, column = 2, type = Glass\<rparr>]\<rparr>"
  have n: "drawerAt defaultConfig 1 2 = None"
    by (simp add: drawerAt_def defaultConfig_def)
  have s: "drawerAt ?s 1 2 = Some Solid"
    by (simp add: drawerAt_def)
  have g: "drawerAt ?g 1 2 = Some Glass"
    by (simp add: drawerAt_def)
  have d: "distinct (map (\<lambda>d. (row d, column d)) (drawers defaultConfig))"
    by (simp add: defaultConfig_def)
  have ds: "drawers defaultConfig = []"
    by (simp add: defaultConfig_def)
  from n s g d ds
    handleCompartmentClick_three_state_cycle [of defaultConfig 1 2]
    handleCompartmentClick_three_state_cycle [of ?s 1 2]
    handleCompartmentClick_three_state_cycle [of ?g 1 2]
  show ?thesis
    by (auto simp: less_Suc_eq)
qed

lemma cell_row_drawers [simp]: "cell_row (config\<lparr>drawers := v\<rparr>) index = cell_row config index"
  by (simp add: cell_row_def)

lemma cell_column_drawers [simp]: "cell_column (config\<lparr>drawers := v\<rparr>) index = cell_column config index"
  by (simp add: cell_column_def)

lemma panel_click_present:
  assumes "drawerAt config (cell_row config index) (cell_column config index) = Some t"
  shows "cell_onClick config index =
     config\<lparr>drawers := (drawers config)
        [nat (findIndex (\<lambda>d. row d = cell_row config index \<and> column d = cell_column config index)
               (drawers config)) :=
           \<lparr>row = cell_row config index, column = cell_column config index, type = toggled t\<rparr>]\<rparr>"
proof -
  from assms obtain k where
    "findIndex (\<lambda>d. row d = cell_row config index \<and> column d = cell_column config index)
       (drawers config) = int k"
    "k < length (drawers config)"
    "drawers config ! k = \<lparr>row = cell_row config index, column = cell_column config index, type = t\<rparr>"
    by (rule drawerAt_Some)
  then show ?thesis
    by (cases t)
       (simp_all add: cell_onClick_def toggleDrawerType_def updateConfig_drawers_def Let_def
          map_indexed_update)
qed

lemma panel_click_absent:
  assumes "drawerAt config (cell_row config index) (cell_column config index) = None"
  shows "cell_onClick config index =
     config\<lparr>drawers := drawers config @
        [\<lparr>row = cell_row config index, column = cell_column config index, type = Solid\<rparr>]\<rparr>"
  using assms
  by (simp add: drawerAt_None cell_onClick_def addDrawer_def updateConfig_drawers_def Let_def)

lemma panel_remove_present:
  assumes "drawerAt config (cell_row config index) (cell_column config index) = Some t"
  shows "cell_remove_onClick config index =
     config\<lparr>drawers :=
       take (nat (findIndex (\<lambda>d. row d = cell_row config index \<and> column d = cell_column config index)
               (drawers config))) (drawers config) @
       drop (Suc (nat (findIndex (\<lambda>d. row d = cell_row config index \<and> column d = cell_column config index)
               (drawers config)))) (drawers config)\<rparr>"
proof -
  from assms obtain k where
    "findIndex (\<lambda>d. row d = cell_row config index \<and> column d = cell_column config index)
       (drawers config) = int k"
    "k < length (drawers config)"
    by (rule drawerAt_Some)
  then show ?thesis
    by (simp add: cell_remove_onClick_def removeDrawer_def updateConfig_drawers_def Let_def
          filter_indexed_drop)
qed

lemma panel_click_state:
  assumes "drawerAt config (cell_row config index) (cell_column config index) = Some t"
  shows "drawerAt (cell_onClick config index) (cell_row config index) (cell_column config index)
           = Some (toggled t)"
proof -
  let ?r = "cell_row config index" and ?c = "cell_column config index"
  let ?p = "\<lambda>d. row d = ?r \<and> column d = ?c"
  from assms obtain k where k: "findIndex ?p (drawers config) = int k"
    "k < length (drawers config)" "\<forall>j<k. \<not> ?p (drawers config ! j)"
    by (rule drawerAt_Some)
  have "find ?p ((drawers config)[k := \<lparr>row = ?r, column = ?c, type = toggled t\<rparr>])
      = Some \<lparr>row = ?r, column = ?c, type = toggled t\<rparr>"
    by (rule find_update_first [OF k(2) k(3)]) simp
  with panel_click_present [OF assms] k(1) show ?thesis
    by (simp add: drawerAt_def)
qed

lemma toggled_toggled [simp]: "toggled (toggled t) = t"
  by (cases t) simp_all

lemma panel_click_twice:
  assumes "drawerAt config (cell_row config index) (cell_column config index) = Some t"
  shows "cell_onClick (cell_onClick config index) index = config"
proof -
  let ?r = "cell_row config index" and ?c = "cell_column config index"
  let ?p = "\<lambda>d. row d = ?r \<and> column d = ?c"
  let ?c1 = "cell_onClick config index"
  from assms obtain k where k: "findIndex ?p (drawers config) = int k"
    "k < length (drawers config)" "\<forall>j<k. \<not> ?p (drawers config ! j)"
    "drawers config ! k = \<lparr>row = ?r, column = ?c, type = t\<rparr>"
    by (rule drawerAt_Some)
  have 1: "?c1 = config\<lparr>drawers := (drawers config)[k := \<lparr>row = ?r, column = ?c, type = toggled t\<rparr>]\<rparr>"
    using panel_click_present [OF assms] k(1) by simp
  have rc: "cell_row ?c1 index = ?r" "cell_column ?c1 index = ?c"
    by (simp_all add: 1)
  have s1: "drawerAt ?c1 (cell_row ?c1 index) (cell_column ?c1 index) = Some (toggled t)"
    using panel_click_state [OF assms] by (simp only: rc)
  have "\<forall>j<k. \<not> ?p ((drawers config)[k := \<lparr>row = ?r, column = ?c, type = toggled t\<rparr>] ! j)"
    using k(3) by simp
  have fi: "findIndex ?p (drawers ?c1) = int k"
  proof -
    have nn: "0 \<le> findIndex ?p (drawers ?c1)"
      using s1 by (simp only: rc drawerAt_def find_findIndex split: if_splits) simp
    from findIndex_first [of ?p, OF nn]
    have a: "nat (findIndex ?p (drawers ?c1)) < length (drawers ?c1)"
      and b: "?p (drawers ?c1 ! nat (findIndex ?p (drawers ?c1)))"
      and c: "\<forall>j<nat (findIndex ?p (drawers ?c1)). \<not> ?p (drawers ?c1 ! j)"
      by blast+
    have "?p (drawers ?c1 ! k)" using k(2) by (simp add: 1)
    with c have le: "nat (findIndex ?p (drawers ?c1)) \<le> k" by (meson not_le_imp_less)
    have "\<not> nat (findIndex ?p (drawers ?c1)) < k"
    proof
      assume lt: "nat (findIndex ?p (drawers ?c1)) < k"
      then have "drawers ?c1 ! nat (findIndex ?p (drawers ?c1))
          = drawers config ! nat (findIndex ?p (drawers ?c1))"
        by (simp add: 1)
      with b k(3) lt show False by auto
    qed
    with le have "nat (findIndex ?p (drawers ?c1)) = k" by simp
    with nn show ?thesis by simp
  qed
  from panel_click_present [OF s1] have
    "cell_onClick ?c1 index = ?c1\<lparr>drawers := (drawers ?c1)[k := \<lparr>row = ?r, column = ?c, type = t\<rparr>]\<rparr>"
    by (simp only: rc fi nat_int toggled_toggled)
  also have "\<dots> = config\<lparr>drawers := (drawers config)[k := drawers config ! k]\<rparr>"
    by (simp add: 1 k(4))
  also have "\<dots> = config" by simp
  finally show ?thesis .
qed




text \<open>
  Claim C10. In the panel's compartment grid, a click on a cell that holds a drawer
  replaces the first entry at that cell by one of the other kind, in place: Solid becomes
  Glass and Glass becomes Solid, a second click restores the configuration, and no click
  on a cell ever shortens the list of drawers. The entry is removed by the cell's own
  remove button. On a Glass cell the two paths differ: the panel click gives Solid, while
  the viewport's press removes the entry, exactly as the remove button does.
\<close>

theorem panel_click_two_state_toggle:
  "(drawerAt config (cell_row config index) (cell_column config index) = Some t \<longrightarrow>
      (\<exists>k<length (drawers config).
          (\<forall>j<k. \<not> (row (drawers config ! j) = cell_row config index \<and>
                     column (drawers config ! j) = cell_column config index)) \<and>
          drawers config ! k =
            \<lparr>row = cell_row config index, column = cell_column config index, type = t\<rparr> \<and>
          cell_onClick config index =
            config\<lparr>drawers := (drawers config)
              [k := \<lparr>row = cell_row config index, column = cell_column config index,
                     type = toggled t\<rparr>]\<rparr> \<and>
          cell_remove_onClick config index =
            config\<lparr>drawers := take k (drawers config) @ drop (Suc k) (drawers config)\<rparr>) \<and>
      drawerAt (cell_onClick config index) (cell_row config index) (cell_column config index)
        = Some (toggled t) \<and>
      cell_onClick (cell_onClick config index) index = config) \<and>
   length (drawers config) \<le> length (drawers (cell_onClick config index)) \<and>
   (drawerAt config (cell_row config index) (cell_column config index) = Some Glass \<longrightarrow>
      drawerAt (cell_onClick config index) (cell_row config index) (cell_column config index)
        = Some Solid \<and>
      handleCompartmentClick config (cell_row config index) (cell_column config index)
        = cell_remove_onClick config index \<and>
      length (drawers (handleCompartmentClick config (cell_row config index)
        (cell_column config index))) < length (drawers config))"
proof (intro conjI impI)
  assume s: "drawerAt config (cell_row config index) (cell_column config index) = Some t"
  then obtain k where k:
    "findIndex (\<lambda>d. row d = cell_row config index \<and> column d = cell_column config index)
       (drawers config) = int k"
    "k < length (drawers config)"
    "drawers config ! k = \<lparr>row = cell_row config index, column = cell_column config index, type = t\<rparr>"
    "\<forall>j<k. \<not> (row (drawers config ! j) = cell_row config index \<and>
               column (drawers config ! j) = cell_column config index)"
    by (rule drawerAt_Some)
  from panel_click_present [OF s] k(1) have 1: "cell_onClick config index =
      config\<lparr>drawers := (drawers config)
        [k := \<lparr>row = cell_row config index, column = cell_column config index, type = toggled t\<rparr>]\<rparr>"
    by simp
  from panel_remove_present [OF s] k(1) have 2: "cell_remove_onClick config index =
      config\<lparr>drawers := take k (drawers config) @ drop (Suc k) (drawers config)\<rparr>"
    by simp
  from k(2,3,4) 1 2 show "\<exists>k<length (drawers config).
          (\<forall>j<k. \<not> (row (drawers config ! j) = cell_row config index \<and>
                     column (drawers config ! j) = cell_column config index)) \<and>
          drawers config ! k =
            \<lparr>row = cell_row config index, column = cell_column config index, type = t\<rparr> \<and>
          cell_onClick config index =
            config\<lparr>drawers := (drawers config)
              [k := \<lparr>row = cell_row config index, column = cell_column config index,
                     type = toggled t\<rparr>]\<rparr> \<and>
          cell_remove_onClick config index =
            config\<lparr>drawers := take k (drawers config) @ drop (Suc k) (drawers config)\<rparr>"
    by blast
  from s show "drawerAt (cell_onClick config index) (cell_row config index) (cell_column config index)
        = Some (toggled t)"
    by (rule panel_click_state)
  from s show "cell_onClick (cell_onClick config index) index = config"
    by (rule panel_click_twice)
next
  show "length (drawers config) \<le> length (drawers (cell_onClick config index))"
  proof (cases "drawerAt config (cell_row config index) (cell_column config index)")
    case None
    then show ?thesis by (simp add: panel_click_absent)
  next
    case (Some t)
    then show ?thesis by (simp add: panel_click_present)
  qed
next
  assume g: "drawerAt config (cell_row config index) (cell_column config index) = Some Glass"
  then show "drawerAt (cell_onClick config index) (cell_row config index) (cell_column config index)
        = Some Solid"
    using panel_click_state [of config index Glass] by simp
  from g show 3: "handleCompartmentClick config (cell_row config index) (cell_column config index)
        = cell_remove_onClick config index"
    by (simp add: click_glass panel_remove_present)
  from g obtain k where
    "findIndex (\<lambda>d. row d = cell_row config index \<and> column d = cell_column config index)
       (drawers config) = int k" "k < length (drawers config)"
    by (rule drawerAt_Some)
  with panel_remove_present [OF g]
  show "length (drawers (handleCompartmentClick config (cell_row config index)
        (cell_column config index))) < length (drawers config)"
    unfolding 3 by simp
qed

theorem panel_click_two_state_toggle_witness:
  "drawerAt (defaultConfig\<lparr>drawers := [\<lparr>row = 4, column = 1, type = Glass\<rparr>]\<rparr>)
     (cell_row defaultConfig 1) (cell_column defaultConfig 1) = Some Glass \<and>
   cell_onClick (defaultConfig\<lparr>drawers := [\<lparr>row = 4, column = 1, type = Glass\<rparr>]\<rparr>) 1 =
     defaultConfig\<lparr>drawers := [\<lparr>row = 4, column = 1, type = Solid\<rparr>]\<rparr> \<and>
   cell_remove_onClick (defaultConfig\<lparr>drawers := [\<lparr>row = 4, column = 1, type = Glass\<rparr>]\<rparr>) 1 =
     defaultConfig \<and>
   handleCompartmentClick (defaultConfig\<lparr>drawers := [\<lparr>row = 4, column = 1, type = Glass\<rparr>]\<rparr>) 4 1 =
     defaultConfig \<and>
   cell_onClick (cell_onClick (defaultConfig\<lparr>drawers := [\<lparr>row = 4, column = 1, type = Glass\<rparr>]\<rparr>) 1) 1 =
     defaultConfig\<lparr>drawers := [\<lparr>row = 4, column = 1, type = Glass\<rparr>]\<rparr>"
proof -
  let ?g = "defaultConfig\<lparr>drawers := [\<lparr>row = 4, column = 1, type = Glass\<rparr>]\<rparr>"
  have r: "cell_row ?g 1 = 4" "cell_column ?g 1 = 1" "cell_row defaultConfig 1 = 4"
    "cell_column defaultConfig 1 = 1"
    by (simp_all add: cell_row_def cell_column_def js_rem_def defaultConfig_def)
  have g: "drawerAt ?g (cell_row ?g 1) (cell_column ?g 1) = Some Glass"
    by (simp add: drawerAt_def cell_row_def cell_column_def js_rem_def defaultConfig_def)
  have ds: "drawers defaultConfig = []"
    by (simp add: defaultConfig_def)
  from g panel_click_two_state_toggle [of ?g 1 Glass] show ?thesis
    unfolding r by (auto simp: ds)
qed

section \<open>Properties of the geometry builder\<close>

lemmas jsnum_ops =
  plus_jsnum_def minus_jsnum_def uminus_jsnum_def times_jsnum_def divide_jsnum_def
  js_sub_def js_int_def

lemma for_upto_fold: "for_upto i n body st = fold body [i..n] st"
proof (induction i n body st rule: for_upto.induct)
  case (1 i n body st)
  show ?case
  proof (cases "i \<le> n")
    case True
    with 1 show ?thesis by (subst for_upto.simps) (simp add: upto_rec1)
  next
    case False
    then show ?thesis by (subst for_upto.simps) simp
  qed
qed

lemma emitsI:
  assumes "\<And>s. bookcase_layout (f s) = bookcase_layout s @ B"
    and "\<And>s. compartments_layout (f s) = compartments_layout s @ C"
    and "\<And>s. scene_frame (f s) = scene_frame s"
  shows "emits f B C"
  using assms by (simp add: emits_def)

lemma emitsD:
  assumes "emits f B C"
  shows "bookcase_layout (f s) = bookcase_layout s @ B"
    and "compartments_layout (f s) = compartments_layout s @ C"
    and "scene_frame (f s) = scene_frame s"
  using assms by (simp_all add: emits_def)

lemma emits_id: "emits (\<lambda>s. s) [] []"
  by (simp add: emits_def)

lemma emits_comp:
  assumes "emits f B C" and "emits g B' C'"
  shows "emits (\<lambda>s. g (f s)) (B @ B') (C @ C')"
  using assms by (simp add: emits_def)

lemma concat_map_Nil [simp]: "concat (map (\<lambda>_. []) xs) = []"
  by (induction xs) simp_all

lemma emits_fold:
  assumes "\<And>x. emits (f x) (B x) (C x)"
  shows "emits (fold f xs) (concat (map B xs)) (concat (map C xs))"
proof (induction xs)
  case Nil
  show ?case by (simp add: emits_def)
next
  case (Cons x xs)
  from emits_comp [OF assms [of x] Cons] show ?case by (simp add: comp_def)
qed

lemma layout_next_id [simp]:
  "bookcase_layout (s\<lparr>next_id := n\<rparr>) = bookcase_layout s"
  "compartments_layout (s\<lparr>next_id := n\<rparr>) = compartments_layout s"
  "scene_frame (s\<lparr>next_id := n\<rparr>) = scene_frame s"
  by (simp_all add: bookcase_layout_def compartments_layout_def scene_frame_def)

lemma layout_bookcaseGroup_add [simp]:
  "bookcase_layout (bookcaseGroup_add m s) = bookcase_layout s @ [mesh_layout m]"
  "compartments_layout (bookcaseGroup_add m s) = compartments_layout s"
  "scene_frame (bookcaseGroup_add m s) = scene_frame s"
  "next_id (bookcaseGroup_add m s) = next_id s"
  by (simp_all add: bookcase_layout_def compartments_layout_def scene_frame_def bookcaseGroup_add_def)

lemma layout_compartmentsGroup_add [simp]:
  "bookcase_layout (compartmentsGroup_add m s) = bookcase_layout s"
  "compartments_layout (compartmentsGroup_add m s) = compartments_layout s @ [mesh_layout m]"
  "scene_frame (compartmentsGroup_add m s) = scene_frame s"
  "next_id (compartmentsGroup_add m s) = next_id s"
  by (simp_all add: bookcase_layout_def compartments_layout_def scene_frame_def compartmentsGroup_add_def)

lemma mesh_layout_createBox [simp]:
  "mesh_layout (createBox col w h d px py pz n) =
     (BoxGeometry w h d, WoodMaterial col, Vector3 px py pz, None)"
  by (simp add: mesh_layout_def createBox_def)

lemma emits_add_createBox:
  "emits (add_createBox col w h d px py pz)
     [(BoxGeometry w h d, WoodMaterial col, Vector3 px py pz, None)] []"
  by (simp add: emits_def add_createBox_def)

lemma emits_main_structure:
  "emits (main_structure cfg)
     [(BoxGeometry (width cfg) (thickness cfg) (depth cfg), WoodMaterial (color cfg),
         Vector3 (Fin 0) (thickness cfg / Fin 2) (Fin 0), None),
      (BoxGeometry (width cfg) (thickness cfg) (depth cfg), WoodMaterial (color cfg),
         Vector3 (Fin 0) (height cfg - thickness cfg / Fin 2) (Fin 0), None),
      (BoxGeometry (thickness cfg) (height cfg) (depth cfg), WoodMaterial (color cfg),
         Vector3 (- width cfg / Fin 2 + thickness cfg / Fin 2) (height cfg / Fin 2) (Fin 0), None),
      (BoxGeometry (thickness cfg) (height cfg) (depth cfg), WoodMaterial (color cfg),
         Vector3 (width cfg / Fin 2 - thickness cfg / Fin 2) (height cfg / Fin 2) (Fin 0), None),
      (BoxGeometry (width cfg - thickness cfg * Fin 2) (height cfg - thickness cfg * Fin 2)
           (thickness cfg / Fin 2), BackMaterial (color cfg),
         Vector3 (Fin 0) (height cfg / Fin 2)
           (- depth cfg / Fin 2 + thickness cfg / Fin 2 / Fin 2), None)] []"
  by (simp add: emits_def main_structure_def Let_def add_createBox_def mesh_layout_def
        createBox_def)

lemma emits_shelves_section:
  "emits (shelves_section cfg)
     (map (\<lambda>i. (BoxGeometry (width cfg - thickness cfg * Fin 2) (thickness cfg) (depth cfg),
                WoodMaterial (color cfg),
                Vector3 (Fin 0)
                  (thickness cfg + (height cfg - thickness cfg * Fin 2) / js_int (shelves cfg + 1)
                     * js_int i) (Fin 0), None))
        [1..shelves cfg]) []"
proof (cases "0 < shelves cfg")
  case True
  let ?f = "\<lambda>i. add_createBox (color cfg) (width cfg - thickness cfg * Fin 2) (thickness cfg)
      (depth cfg) (Fin 0)
      (thickness cfg + (height cfg - thickness cfg * Fin 2) / js_int (shelves cfg + 1) * js_int i)
      (Fin 0)"
  have "emits (fold ?f [1..shelves cfg])
      (concat (map (\<lambda>i. [(BoxGeometry (width cfg - thickness cfg * Fin 2) (thickness cfg) (depth cfg),
                WoodMaterial (color cfg),
                Vector3 (Fin 0)
                  (thickness cfg + (height cfg - thickness cfg * Fin 2) / js_int (shelves cfg + 1)
                     * js_int i) (Fin 0), None)]) [1..shelves cfg]))
      (concat (map (\<lambda>_. []) [1..shelves cfg]))"
    by (rule emits_fold) (rule emits_add_createBox)
  moreover from True have "shelves_section cfg = fold ?f [1..shelves cfg]"
    by (intro ext) (simp only: shelves_section_def Let_def for_upto_fold if_True)
  ultimately show ?thesis
    by (simp add: concat_map_singleton)
next
  case False
  then show ?thesis by (simp add: shelves_section_def emits_def)
qed

lemma emits_divisions_section:
  "emits (divisions_section cfg)
     (map (\<lambda>i. (BoxGeometry (thickness cfg) (height cfg - thickness cfg * Fin 2) (depth cfg),
                WoodMaterial (color cfg),
                Vector3 (- width cfg / Fin 2 + thickness cfg
                   + (width cfg - thickness cfg * Fin 2) / js_int (divisions cfg + 1) * js_int i)
                  (height cfg / Fin 2) (Fin 0), None))
        [1..divisions cfg]) []"
proof (cases "0 < divisions cfg")
  case True
  let ?f = "\<lambda>i. add_createBox (color cfg) (thickness cfg) (height cfg - thickness cfg * Fin 2)
      (depth cfg)
      (- width cfg / Fin 2 + thickness cfg
         + (width cfg - thickness cfg * Fin 2) / js_int (divisions cfg + 1) * js_int i)
      (height cfg / Fin 2) (Fin 0)"
  have "emits (fold ?f [1..divisions cfg])
      (concat (map (\<lambda>i. [(BoxGeometry (thickness cfg) (height cfg - thickness cfg * Fin 2) (depth cfg),
                WoodMaterial (color cfg),
                Vector3 (- width cfg / Fin 2 + thickness cfg
                   + (width cfg - thickness cfg * Fin 2) / js_int (divisions cfg + 1) * js_int i)
                  (height cfg / Fin 2) (Fin 0), None)]) [1..divisions cfg]))
      (concat (map (\<lambda>_. []) [1..divisions cfg]))"
    by (rule emits_fold) (rule emits_add_createBox)
  moreover from True have "divisions_section cfg = fold ?f [1..divisions cfg]"
    by (intro ext) (simp only: divisions_section_def Let_def for_upto_fold if_True)
  ultimately show ?thesis
    by (simp add: concat_map_singleton)
next
  case False
  then show ?thesis by (simp add: divisions_section_def emits_def)
qed

lemma emits_add_compartment:
  "emits (add_compartment cfg cm r c) [] [mesh_layout (compartment_mesh cfg 0 r c 0)]"
  by (simp add: emits_def add_compartment_def mesh_layout_def compartment_mesh_def Let_def)

lemma compartments_section_fold:
  "compartments_section cfg s =
     fold (\<lambda>r. fold (add_compartment cfg (next_id s) r) [0..divisions cfg]) [0..shelves cfg]
       (s\<lparr>next_id := Suc (next_id s)\<rparr>)"
proof -
  have "(\<lambda>r. for_upto 0 (divisions cfg) (add_compartment cfg (next_id s) r))
      = (\<lambda>r. fold (add_compartment cfg (next_id s) r) [0..divisions cfg])"
    by (intro ext) (rule for_upto_fold)
  then show ?thesis
    by (simp only: compartments_section_def Let_def for_upto_fold)
qed

lemma emits_compartments_section:
  "emits (compartments_section cfg) []
     (map (\<lambda>(r, c). mesh_layout (compartment_mesh cfg 0 r c 0))
        (List.product [0..shelves cfg] [0..divisions cfg]))"
proof -
  have row: "emits (fold (add_compartment cfg cm r) [0..divisions cfg]) []
      (map (\<lambda>c. mesh_layout (compartment_mesh cfg 0 r c 0)) [0..divisions cfg])" for cm r
  proof -
    have "emits (fold (add_compartment cfg cm r) [0..divisions cfg])
        (concat (map (\<lambda>_. []) [0..divisions cfg]))
        (concat (map (\<lambda>c. [mesh_layout (compartment_mesh cfg 0 r c 0)]) [0..divisions cfg]))"
      by (rule emits_fold) (rule emits_add_compartment)
    then show ?thesis by (simp add: concat_map_singleton)
  qed
  have all: "emits (fold (\<lambda>r. fold (add_compartment cfg cm r) [0..divisions cfg]) [0..shelves cfg]) []
      (map (\<lambda>(r, c). mesh_layout (compartment_mesh cfg 0 r c 0))
        (List.product [0..shelves cfg] [0..divisions cfg]))" for cm
  proof -
    have "emits (fold (\<lambda>r. fold (add_compartment cfg cm r) [0..divisions cfg]) [0..shelves cfg])
        (concat (map (\<lambda>_. []) [0..shelves cfg]))
        (concat (map (\<lambda>r. map (\<lambda>c. mesh_layout (compartment_mesh cfg 0 r c 0)) [0..divisions cfg])
            [0..shelves cfg]))"
      by (rule emits_fold) (rule row)
    moreover have "map (\<lambda>(r, c). mesh_layout (compartment_mesh cfg 0 r c 0))
        (List.product xs ys)
      = concat (map (\<lambda>r. map (\<lambda>c. mesh_layout (compartment_mesh cfg 0 r c 0)) ys) xs)" for xs ys
      by (induction xs) (simp_all add: comp_def)
    ultimately show ?thesis by simp
  qed
  show ?thesis
  proof (rule emitsI)
    fix s
    show "bookcase_layout (compartments_section cfg s) = bookcase_layout s @ []"
      using emitsD(1) [OF all, of "next_id s" "s\<lparr>next_id := Suc (next_id s)\<rparr>"]
      by (simp add: compartments_section_fold)
    show "compartments_layout (compartments_section cfg s) = compartments_layout s @
        map (\<lambda>(r, c). mesh_layout (compartment_mesh cfg 0 r c 0))
          (List.product [0..shelves cfg] [0..divisions cfg])"
      using emitsD(2) [OF all, of "next_id s" "s\<lparr>next_id := Suc (next_id s)\<rparr>"]
      by (simp add: compartments_section_fold)
    show "scene_frame (compartments_section cfg s) = scene_frame s"
      using emitsD(3) [OF all, of "next_id s" "s\<lparr>next_id := Suc (next_id s)\<rparr>"]
      by (simp add: compartments_section_fold)
  qed
qed

lemma layout_initialScene [simp]:
  "bookcase_layout initialScene = []" "compartments_layout initialScene = []"
  by (simp_all add: bookcase_layout_def compartments_layout_def initialScene_def)

lemma emits_initial:
  assumes "emits f B C"
  shows "B = bookcase_layout (f initialScene)" and "C = compartments_layout (f initialScene)"
  using emitsD(1,2) [OF assms, of initialScene] by simp_all

lemma emits_add_frame:
  "emits (add_frame cfg fm dx dy dz fr)
     [(BoxGeometry (fst fr) (fst (snd fr)) (thickness cfg * Fin 1.5), FrameMaterial,
       Vector3 (dx + fst (snd (snd fr))) (dy + snd (snd (snd fr))) dz, None)] []"
  by (cases fr) (simp add: emits_def add_frame_def mesh_layout_def)

lemma emits_add_drawer:
  "emits (add_drawer cfg dr) (bookcase_layout (add_drawer cfg dr initialScene)) []"
proof (cases "type dr")
  case Solid
  then show ?thesis
    by (simp add: emits_def add_drawer_def Let_def mesh_layout_def)
next
  case Glass
  then show ?thesis
    by (simp add: emits_def add_drawer_def Let_def mesh_layout_def add_frame_def)
qed

lemma length_add_drawer:
  "length (bookcase_layout (add_drawer cfg dr initialScene)) = (if type dr = Solid then 2 else 6)"
  by (cases "type dr")
     (simp_all add: add_drawer_def Let_def mesh_layout_def add_frame_def)

lemma emits_drawers_section:
  "emits (drawers_section cfg)
     (concat (map (\<lambda>dr. bookcase_layout (add_drawer cfg dr initialScene)) (drawers cfg))) []"
proof -
  have "emits (fold (add_drawer cfg) (drawers cfg))
      (concat (map (\<lambda>dr. bookcase_layout (add_drawer cfg dr initialScene)) (drawers cfg)))
      (concat (map (\<lambda>_. []) (drawers cfg)))"
    by (rule emits_fold) (rule emits_add_drawer)
  moreover have "drawers_section cfg = fold (add_drawer cfg) (drawers cfg)"
    by (intro ext) (simp add: drawers_section_def)
  ultimately show ?thesis by simp
qed

text \<open>The builder without its last assignment to \<open>position.y\<close>.\<close>

lemma emits_createBookcase_sections:
  "emits (\<lambda>s. drawers_section cfg (compartments_section cfg (divisions_section cfg
       (shelves_section cfg (main_structure cfg (s\<lparr>next_id := next_id s + 2\<rparr>))))))
     (bookcase_layout (main_structure cfg initialScene) @
      bookcase_layout (shelves_section cfg initialScene) @
      bookcase_layout (divisions_section cfg initialScene) @
      bookcase_layout (drawers_section cfg initialScene))
     (compartments_layout (compartments_section cfg initialScene))"
proof -
  note m = emits_main_structure [of cfg] and sh = emits_shelves_section [of cfg]
    and dv = emits_divisions_section [of cfg] and cp = emits_compartments_section [of cfg]
    and dr = emits_drawers_section [of cfg]
  have n: "emits (\<lambda>s. s\<lparr>next_id := next_id s + 2\<rparr>) [] []"
    by (simp add: emits_def)
  from emits_comp [OF emits_comp [OF emits_comp [OF emits_comp [OF emits_comp [OF n m] sh] dv] cp] dr]
  show ?thesis
    by (simp add: emits_initial [OF m, symmetric] emits_initial [OF sh, symmetric]
          emits_initial [OF dv, symmetric] emits_initial [OF cp, symmetric]
          emits_initial [OF dr, symmetric])
qed

lemma layout_bookcase_position [simp]:
  "bookcase_layout (s\<lparr>bookcase_position := p\<rparr>) = bookcase_layout s"
  "compartments_layout (s\<lparr>bookcase_position := p\<rparr>) = compartments_layout s"
  "bookcase_layout (s\<lparr>compartments_position := p\<rparr>) = bookcase_layout s"
  "compartments_layout (s\<lparr>compartments_position := p\<rparr>) = compartments_layout s"
  by (simp_all add: bookcase_layout_def compartments_layout_def)

lemma createBookcase_bookcase_layout:
  "bookcase_layout (createBookcase s cfg) =
     bookcase_layout s @
     bookcase_layout (main_structure cfg initialScene) @
     bookcase_layout (shelves_section cfg initialScene) @
     bookcase_layout (divisions_section cfg initialScene) @
     bookcase_layout (drawers_section cfg initialScene)"
  using emitsD(1) [OF emits_createBookcase_sections, of cfg s]
  by (simp add: createBookcase_def Let_def)

lemma createBookcase_compartments_layout:
  "compartments_layout (createBookcase s cfg) =
     compartments_layout s @ compartments_layout (compartments_section cfg initialScene)"
  using emitsD(2) [OF emits_createBookcase_sections, of cfg s]
  by (simp add: createBookcase_def Let_def)

lemma createBookcase_frame:
  "bookcase_position (createBookcase s cfg) =
     Vector3 (vec_x (bookcase_position s)) (Fin 0) (vec_z (bookcase_position s))"
  "compartments_position (createBookcase s cfg) = compartments_position s"
  "isDragging (createBookcase s cfg) = isDragging s"
  "controls_enabled (createBookcase s cfg) = controls_enabled s"
  "dragOffset (createBookcase s cfg) = dragOffset s"
  "disposal_log (createBookcase s cfg) = disposal_log s"
  using emitsD(3) [OF emits_createBookcase_sections, of cfg s]
  by (simp_all add: createBookcase_def Let_def scene_frame_def)

lemma clear_bookcase_eq:
  "clear_bookcase s =
     s\<lparr>bookcase_children := [],
        disposal_log := disposal_log s @ teardown_events (bookcase_children s)\<rparr>"
proof (induction s rule: clear_bookcase.induct)
  case (1 s)
  show ?case
  proof (cases "bookcase_children s")
    case Nil
    then show ?thesis
      by (subst clear_bookcase.simps) (simp add: teardown_events_def)
  next
    case (Cons m ms)
    with 1 [OF _ refl refl refl] show ?thesis
      by (subst clear_bookcase.simps) (simp add: teardown_events_def Let_def)
  qed
qed

lemma clear_compartments_eq:
  "clear_compartments s =
     s\<lparr>compartments_children := [],
        disposal_log := disposal_log s @ teardown_events (compartments_children s)\<rparr>"
proof (induction s rule: clear_compartments.induct)
  case (1 s)
  show ?case
  proof (cases "compartments_children s")
    case Nil
    then show ?thesis
      by (subst clear_compartments.simps) (simp add: teardown_events_def)
  next
    case (Cons m ms)
    with 1 [OF _ refl refl refl] show ?thesis
      by (subst clear_compartments.simps) (simp add: teardown_events_def Let_def)
  qed
qed

lemma sync_bookcase_position:
  "bookcase_position (sync s cfg) =
     (if vec_x (bookcase_position s) \<noteq> Fin 0 \<or> vec_z (bookcase_position s) \<noteq> Fin 0
      then bookcase_position s else default_position cfg)"
  by (simp add: sync_def Let_def default_position_def)

lemma sync_compartments_position:
  "compartments_position (sync s cfg) = bookcase_position (sync s cfg)"
  by (simp add: sync_def Let_def)

lemma cleared_layout [simp]:
  "bookcase_layout (clear_compartments (clear_bookcase s)) = []"
  "compartments_layout (clear_compartments (clear_bookcase s)) = []"
  by (simp_all add: clear_bookcase_eq clear_compartments_eq bookcase_layout_def
        compartments_layout_def)

lemma sync_bookcase_layout:
  "bookcase_layout (sync s cfg) = bookcase_layout (createBookcase initialScene cfg)"
  by (simp add: sync_def Let_def createBookcase_bookcase_layout)

lemma sync_compartments_layout:
  "compartments_layout (sync s cfg) = compartments_layout (createBookcase initialScene cfg)"
  by (simp add: sync_def Let_def createBookcase_compartments_layout)

lemma sync_frame:
  "isDragging (sync s cfg) = isDragging s"
  "controls_enabled (sync s cfg) = controls_enabled s"
  "dragOffset (sync s cfg) = dragOffset s"
  "disposal_log (sync s cfg) =
     disposal_log s @ teardown_events (bookcase_children s)
       @ teardown_events (compartments_children s)"
  by (simp_all add: sync_def Let_def createBookcase_frame clear_bookcase_eq clear_compartments_eq)

lemma emitted_bookcase_layout:
  "map mesh_layout (emitted_bookcase s cfg) = bookcase_layout (createBookcase initialScene cfg)"
proof -
  have "map mesh_layout (emitted_bookcase s cfg)
      = drop (length (bookcase_layout s)) (bookcase_layout (createBookcase s cfg))"
    by (simp add: emitted_bookcase_def bookcase_layout_def drop_map)
  then show ?thesis
    by (simp add: createBookcase_bookcase_layout)
qed

lemma emitted_compartments_layout:
  "map mesh_layout (emitted_compartments s cfg) =
     compartments_layout (createBookcase initialScene cfg)"
proof -
  have "map mesh_layout (emitted_compartments s cfg)
      = drop (length (compartments_layout s)) (compartments_layout (createBookcase s cfg))"
    by (simp add: emitted_compartments_def compartments_layout_def drop_map)
  then show ?thesis
    by (simp add: createBookcase_compartments_layout)
qed

lemma hit_region_layout:
  "compartments_layout (createBookcase initialScene cfg) =
     map (\<lambda>(r, c). mesh_layout (compartment_mesh cfg 0 r c 0))
       (List.product [0..shelves cfg] [0..divisions cfg])"
  using emits_initial(2) [OF emits_compartments_section, of cfg]
  by (simp add: createBookcase_compartments_layout)

lemma userData_layout: "userData m = snd (snd (snd (mesh_layout m)))"
  and material_layout: "material m = fst (snd (mesh_layout m))"
  and position_layout: "position m = fst (snd (snd (mesh_layout m)))"
  and geometry_layout: "geometry m = fst (mesh_layout m)"
  by (simp_all add: mesh_layout_def)

lemma emitted_compartments_userData:
  "map userData (emitted_compartments s cfg) =
     map Some (List.product [0..shelves cfg] [0..divisions cfg])"
proof -
  have "map userData (emitted_compartments s cfg)
      = map (\<lambda>l. snd (snd (snd l))) (map mesh_layout (emitted_compartments s cfg))"
    by (simp add: userData_layout)
  also have "\<dots> = map Some (List.product [0..shelves cfg] [0..divisions cfg])"
    unfolding emitted_compartments_layout hit_region_layout
    by (simp add: mesh_layout_def compartment_mesh_def Let_def split_def)
  finally show ?thesis .
qed

lemma emitted_compartments_material:
  "map material (emitted_compartments s cfg) =
     map (\<lambda>_. CompartmentMaterial) (List.product [0..shelves cfg] [0..divisions cfg])"
proof -
  have "map material (emitted_compartments s cfg)
      = map (\<lambda>l. fst (snd l)) (map mesh_layout (emitted_compartments s cfg))"
    by (simp add: material_layout)
  also have "\<dots> = map (\<lambda>_. CompartmentMaterial) (List.product [0..shelves cfg] [0..divisions cfg])"
    unfolding emitted_compartments_layout hit_region_layout
    by (simp add: mesh_layout_def compartment_mesh_def Let_def split_def)
  finally show ?thesis .
qed

lemma length_product_upto:
  "0 \<le> a \<Longrightarrow> 0 \<le> b \<Longrightarrow> length (List.product [0..a] [0..b]) = nat ((a + 1) * (b + 1))"
  by (simp add: nat_mult_distrib)

lemma createBookcase_compartments_length:
  "length (compartments_children (createBookcase s cfg)) =
     length (compartments_children s) + length (List.product [0..shelves cfg] [0..divisions cfg])"
proof -
  have "length (compartments_children (createBookcase s cfg))
      = length (compartments_layout (createBookcase s cfg))"
    by (simp add: compartments_layout_def)
  also have "\<dots> = length (compartments_layout s) + length (List.product [0..shelves cfg] [0..divisions cfg])"
    unfolding createBookcase_compartments_layout [of s]
    using hit_region_layout [of cfg]
    by (simp add: createBookcase_compartments_layout del: length_product)
  finally show ?thesis by (simp add: compartments_layout_def)
qed

text \<open>
  Claim C6. Whatever the live groups hold, rebuilding for \<open>cfgA\<close>, then for \<open>cfgB\<close>, then
  for \<open>cfgA\<close> again leaves in both groups meshes of the same number, shapes, materials,
  positions (within the group) and tags, in the same order, as one rebuild for \<open>cfgA\<close> of
  the empty initial scene: nothing accumulates.
\<close>

theorem rebuild_round_trip:
  "map mesh_layout (bookcase_children (sync (sync (sync s cfgA) cfgB) cfgA)) =
     map mesh_layout (bookcase_children (sync initialScene cfgA)) \<and>
   map mesh_layout (compartments_children (sync (sync (sync s cfgA) cfgB) cfgA)) =
     map mesh_layout (compartments_children (sync initialScene cfgA)) \<and>
   length (bookcase_children (sync (sync (sync s cfgA) cfgB) cfgA)) =
     length (bookcase_children (sync initialScene cfgA)) \<and>
   length (compartments_children (sync (sync (sync s cfgA) cfgB) cfgA)) =
     length (compartments_children (sync initialScene cfgA))"
proof -
  have b: "map mesh_layout (bookcase_children (sync (sync (sync s cfgA) cfgB) cfgA)) =
     map mesh_layout (bookcase_children (sync initialScene cfgA))"
    using sync_bookcase_layout [of "sync (sync s cfgA) cfgB" cfgA]
      sync_bookcase_layout [of initialScene cfgA]
    by (simp add: bookcase_layout_def)
  have c: "map mesh_layout (compartments_children (sync (sync (sync s cfgA) cfgB) cfgA)) =
     map mesh_layout (compartments_children (sync initialScene cfgA))"
    using sync_compartments_layout [of "sync (sync s cfgA) cfgB" cfgA]
      sync_compartments_layout [of initialScene cfgA]
    by (simp add: compartments_layout_def)
  from b c map_eq_imp_length_eq [OF b] map_eq_imp_length_eq [OF c] show ?thesis
    by blast
qed

lemma add_compartment_drawers_irrelevant:
  "add_compartment (cfg\<lparr>drawers := ds\<rparr>) cm r = add_compartment cfg cm r"
  by (intro ext)
     (simp add: add_compartment_def compartment_mesh_def compartmentWidth_def
        compartmentHeight_def Let_def)

lemma sections_drawers_irrelevant:
  "main_structure (cfg\<lparr>drawers := ds\<rparr>) = main_structure cfg"
  "shelves_section (cfg\<lparr>drawers := ds\<rparr>) = shelves_section cfg"
  "divisions_section (cfg\<lparr>drawers := ds\<rparr>) = divisions_section cfg"
  "compartments_section (cfg\<lparr>drawers := ds\<rparr>) = compartments_section cfg"
  by (intro ext; simp add: main_structure_def shelves_section_def divisions_section_def
        compartments_section_def add_compartment_drawers_irrelevant Let_def)+

lemma drawers_section_layout:
  "bookcase_layout (drawers_section cfg initialScene) =
     concat (map (\<lambda>dr. bookcase_layout (add_drawer cfg dr initialScene)) (drawers cfg))"
  using emits_initial(1) [OF emits_drawers_section, of cfg] by simp

lemma drawers_section_empty:
  "bookcase_layout (drawers_section (cfg\<lparr>drawers := []\<rparr>) initialScene) = []"
  by (simp add: drawers_section_def)

lemma drawer_box_layout:
  "bookcase_layout (add_drawer cfg dr initialScene) ! 0 =
     (BoxGeometry (compartmentWidth cfg - thickness cfg * Fin 1.5)
        (compartmentHeight cfg - thickness cfg * Fin 1.5) (thickness cfg * Fin 1.5),
      (if type dr = Solid then WoodMaterial (color cfg) else GlassMaterial),
      Vector3 (- width cfg / Fin 2 + thickness cfg
                 + compartmentWidth cfg * (js_int (column dr) + Fin 0.5))
              (thickness cfg + compartmentHeight cfg * (js_int (row dr) + Fin 0.5))
              (depth cfg / Fin 4),
      None)"
  by (cases "type dr")
     (simp_all add: add_drawer_def Let_def mesh_layout_def add_frame_def initialScene_def
        bookcase_layout_def bookcaseGroup_add_def)

lemma emitted_bookcase_split:
  "map mesh_layout (emitted_bookcase s cfg) =
     map mesh_layout (emitted_bookcase s (cfg\<lparr>drawers := []\<rparr>)) @
     concat (map (\<lambda>dr. bookcase_layout (add_drawer cfg dr initialScene)) (drawers cfg))"
  by (simp add: emitted_bookcase_layout createBookcase_bookcase_layout
        sections_drawers_irrelevant drawers_section_layout drawers_section_empty)

lemma drawer_group_layout:
  "bookcase_layout (add_drawer cfg dr initialScene) =
     (let t = thickness cfg;
          cw = (width cfg - t * Fin 2) / js_int (divisions cfg + 1);
          ch = (height cfg - t * Fin 2) / js_int (shelves cfg + 1);
          dx = - width cfg / Fin 2 + t + cw * (js_int (column dr) + Fin 0.5);
          dy = t + ch * (js_int (row dr) + Fin 0.5);
          dz = depth cfg / Fin 4;
          dw = cw - t * Fin 1.5;
          dh = ch - t * Fin 1.5;
          ft = t * Fin 0.3
      in if type dr = Solid then
           [(BoxGeometry dw dh (t * Fin 1.5), WoodMaterial (color cfg), Vector3 dx dy dz, None),
            (CylinderGeometry (t * Fin 0.5) (t * Fin 0.5) (dw * Fin 0.2) 16, HandleMaterial,
             Vector3 dx dy (dz + t), None)]
         else
           [(BoxGeometry dw dh (t * Fin 1.5), GlassMaterial, Vector3 dx dy dz, None),
            (BoxGeometry dw ft (t * Fin 1.5), FrameMaterial,
             Vector3 (dx + Fin 0) (dy + dh / Fin 2) dz, None),
            (BoxGeometry dw ft (t * Fin 1.5), FrameMaterial,
             Vector3 (dx + Fin 0) (dy + - dh / Fin 2) dz, None),
            (BoxGeometry ft dh (t * Fin 1.5), FrameMaterial,
             Vector3 (dx + - dw / Fin 2) (dy + Fin 0) dz, None),
            (BoxGeometry ft dh (t * Fin 1.5), FrameMaterial,
             Vector3 (dx + dw / Fin 2) (dy + Fin 0) dz, None),
            (CylinderGeometry ft ft (dw * Fin 0.15) 12, FrameMaterial,
             Vector3 dx dy (dz + t), None)])"
  by (cases "type dr")
     (simp_all add: add_drawer_def Let_def mesh_layout_def add_frame_def initialScene_def
        bookcase_layout_def bookcaseGroup_add_def compartmentWidth_def compartmentHeight_def)

text \<open>
  Claim C3, as the code has it. \<open>createBookcase\<close> never looks at whether a drawer's
  \<open>row\<close> and \<open>column\<close> lie in the grid: for every entry of \<open>drawers\<close>, in order, it adds the
  drawer's meshes, which are, for a Solid drawer, the box and the handle and, for a Glass
  drawer, the box, the four frame strips (top, bottom, left, right) and the handle, each
  with the size and at the place that the compartment formulas give for the entry's
  \<open>(row, column)\<close>, whatever these are. The structural meshes and the hit-regions are those
  of the same configuration without drawers, and come first. The Bookcase component
  likewise renders one mesh per entry. Nothing in either path raises an error.
\<close>

theorem createBookcase_draws_every_drawer:
  "map mesh_layout (emitted_bookcase s cfg) =
     map mesh_layout (emitted_bookcase s (cfg\<lparr>drawers := []\<rparr>)) @
     concat (map (\<lambda>dr. bookcase_layout (add_drawer cfg dr initialScene)) (drawers cfg)) \<and>
   map mesh_layout (emitted_compartments s cfg) =
     map mesh_layout (emitted_compartments s (cfg\<lparr>drawers := []\<rparr>)) \<and>
   (\<forall>dr. length (bookcase_layout (add_drawer cfg dr initialScene)) =
           (if type dr = Solid then 2 else 6) \<and>
         bookcase_layout (add_drawer cfg dr initialScene) =
           (let t = thickness cfg;
                cw = (width cfg - t * Fin 2) / js_int (divisions cfg + 1);
                ch = (height cfg - t * Fin 2) / js_int (shelves cfg + 1);
                dx = - width cfg / Fin 2 + t + cw * (js_int (column dr) + Fin 0.5);
                dy = t + ch * (js_int (row dr) + Fin 0.5);
                dz = depth cfg / Fin 4;
                dw = cw - t * Fin 1.5;
                dh = ch - t * Fin 1.5;
                ft = t * Fin 0.3
            in if type dr = Solid then
                 [(BoxGeometry dw dh (t * Fin 1.5), WoodMaterial (color cfg),
                   Vector3 dx dy dz, None),
                  (CylinderGeometry (t * Fin 0.5) (t * Fin 0.5) (dw * Fin 0.2) 16,
                   HandleMaterial, Vector3 dx dy (dz + t), None)]
               else
                 [(BoxGeometry dw dh (t * Fin 1.5), GlassMaterial, Vector3 dx dy dz, None),
                  (BoxGeometry dw ft (t * Fin 1.5), FrameMaterial,
                   Vector3 (dx + Fin 0) (dy + dh / Fin 2) dz, None),
                  (BoxGeometry dw ft (t * Fin 1.5), FrameMaterial,
                   Vector3 (dx + Fin 0) (dy + - dh / Fin 2) dz, None),
                  (BoxGeometry ft dh (t * Fin 1.5), FrameMaterial,
                   Vector3 (dx + - dw / Fin 2) (dy + Fin 0) dz, None),
                  (BoxGeometry ft dh (t * Fin 1.5), FrameMaterial,
                   Vector3 (dx + dw / Fin 2) (dy + Fin 0) dz, None),
                  (CylinderGeometry ft ft (dw * Fin 0.15) 12, FrameMaterial,
                   Vector3 dx dy (dz + t), None)])) \<and>
   length (Bookcase_drawers cfg) = length (drawers cfg)"
proof (intro conjI allI)
  show "map mesh_layout (emitted_bookcase s cfg) =
     map mesh_layout (emitted_bookcase s (cfg\<lparr>drawers := []\<rparr>)) @
     concat (map (\<lambda>dr. bookcase_layout (add_drawer cfg dr initialScene)) (drawers cfg))"
    by (rule emitted_bookcase_split)
  show "map mesh_layout (emitted_compartments s cfg) =
     map mesh_layout (emitted_compartments s (cfg\<lparr>drawers := []\<rparr>))"
    by (simp add: emitted_compartments_layout createBookcase_compartments_layout
          sections_drawers_irrelevant)
  show "length (bookcase_layout (add_drawer cfg dr initialScene)) =
           (if type dr = Solid then 2 else 6)" for dr
    by (rule length_add_drawer)
  show "length (Bookcase_drawers cfg) = length (drawers cfg)"
    by (simp add: Bookcase_drawers_def)
qed (rule drawer_group_layout)

text \<open>
  Claim C3 as stated fails: in the start configuration (4 shelves, 2 divisions) a Solid
  drawer at row 9, column 7 is outside the grid, and \<open>createBookcase\<close> still adds its box
  and its handle, here centred at \<open>x = 4.84\<close>, \<open>y = 4.448\<close>.
\<close>

theorem out_of_range_drawer_counterexample:
  "shelves defaultConfig < 9 \<and> divisions defaultConfig < 7 \<and>
   map mesh_layout (emitted_bookcase initialScene
       (defaultConfig\<lparr>drawers := [\<lparr>row = 9, column = 7, type = Solid\<rparr>]\<rparr>)) =
     map mesh_layout (emitted_bookcase initialScene defaultConfig) @
     [(BoxGeometry (Fin (56 / 75)) (Fin (101 / 250)) (Fin (3 / 50)), WoodMaterial ''#daa520'',
       Vector3 (Fin (121 / 25)) (Fin (556 / 125)) (Fin (1 / 10)), None),
      (CylinderGeometry (Fin (1 / 50)) (Fin (1 / 50)) (Fin (56 / 375)) 16, HandleMaterial,
       Vector3 (Fin (121 / 25)) (Fin (556 / 125)) (Fin (7 / 50)), None)]"
proof -
  let ?bad = "defaultConfig\<lparr>drawers := [\<lparr>row = 9, column = 7, type = Solid\<rparr>]\<rparr>"
  have d: "?bad\<lparr>drawers := []\<rparr> = defaultConfig"
    by (simp add: defaultConfig_def)
  have "bookcase_layout (add_drawer ?bad \<lparr>row = 9, column = 7, type = Solid\<rparr> initialScene) =
     [(BoxGeometry (Fin (56 / 75)) (Fin (101 / 250)) (Fin (3 / 50)), WoodMaterial ''#daa520'',
       Vector3 (Fin (121 / 25)) (Fin (556 / 125)) (Fin (1 / 10)), None),
      (CylinderGeometry (Fin (1 / 50)) (Fin (1 / 50)) (Fin (56 / 375)) 16, HandleMaterial,
       Vector3 (Fin (121 / 25)) (Fin (556 / 125)) (Fin (7 / 50)), None)]"
    by (simp add: add_drawer_def Let_def mesh_layout_def initialScene_def bookcase_layout_def
          bookcaseGroup_add_def compartmentWidth_def compartmentHeight_def jsnum_ops
          defaultConfig_def)
  with emitted_bookcase_split [of initialScene ?bad] show ?thesis
    by (simp add: d) (simp add: defaultConfig_def)
qed

lemma default_position_defaultConfig:
  "default_position defaultConfig = Vector3 (Fin 0) (Fin 0) (Fin (- 4.75))"
  by (simp add: default_position_def defaultConfig_def jsnum_ops)

lemma first_build_position:
  "bookcase_position (sync initialScene defaultConfig) = Vector3 (Fin 0) (Fin 0) (Fin (- 4.75))"
  "compartments_position (sync initialScene defaultConfig) = Vector3 (Fin 0) (Fin 0) (Fin (- 4.75))"
  by (simp_all add: sync_compartments_position sync_bookcase_position
        default_position_defaultConfig)
     (simp_all add: initialScene_def)

text \<open>
  Claim C4 fails on a drag. After the first build of the start configuration, a press on
  the bookcase where the ray crosses the drag plane at \<open>(1, 0, 1)\<close> and a move to
  \<open>(2, 0, 1)\<close> put the bookcase group at \<open>(1, 0, -4.75)\<close>; the compartments group is still
  at \<open>(0, 0, -4.75)\<close>, and releasing the button does not move it either. Only the next
  rebuild copies the position again.
\<close>

theorem drag_leaves_compartments_behind:
  "(let a0 = \<lparr>app_config = defaultConfig, app_viewer = sync initialScene defaultConfig\<rparr>;
        a1 = handleMouseDown a0
               \<lparr>compartmentHit = None, bookcaseHit = True,
                planePoint = Some (Vector3 (Fin 1) (Fin 0) (Fin 1))\<rparr>;
        s2 = handleMouseMove (app_viewer a1)
               \<lparr>compartmentHit = None, bookcaseHit = True,
                planePoint = Some (Vector3 (Fin 2) (Fin 0) (Fin 1))\<rparr>;
        s3 = handleMouseUp s2
    in bookcase_position (app_viewer a0) = compartments_position (app_viewer a0) \<and>
       isDragging s2 \<and>
       bookcase_position s2 = Vector3 (Fin 1) (Fin 0) (Fin (- 4.75)) \<and>
       compartments_position s2 = Vector3 (Fin 0) (Fin 0) (Fin (- 4.75)) \<and>
       bookcase_position s2 \<noteq> compartments_position s2 \<and>
       \<not> isDragging s3 \<and>
       bookcase_position s3 \<noteq> compartments_position s3 \<and>
       compartments_position (sync s3 defaultConfig) = bookcase_position (sync s3 defaultConfig))"
  by (simp add: Let_def handleMouseDown_def handleMouseMove_def handleMouseUp_def
        intersectPoint_def first_build_position sync_frame jsnum_ops
        sync_compartments_position)

text \<open>
  Claim C5 fails on the code when a drag leaves the root exactly at \<open>x = 0\<close>, \<open>z = 0\<close>.
  The rebuild carries the comment \<open>Restore position if it was moved, otherwise align to back
  wall\<close>, which is what the claim says, but its test for a moved root is
  \<open>x !== 0 || z !== 0\<close>. The first build of the start configuration places the root at
  \<open>(0, 0, -4.75)\<close>, against the back wall. The press below hits the bookcase with the ray
  crossing the drag plane at \<open>(1, 0, 1)\<close> and records the offset \<open>(1, 0, 5.75)\<close>; the move
  to \<open>(1, 0, 5.75)\<close> brings the root to the origin, where the release leaves it; the next
  rebuild does not keep the root where the drag has put it, but sets it back against the
  wall. Binary floating point gives the same numbers on this path: there
  \<open>-5 + 0.4 / 2 + 0.05\<close> evaluates to \<open>-4.75\<close>, and the other operands are binary fractions.
\<close>

theorem rebuild_resets_drag_to_origin:
  "(let a0 = \<lparr>app_config = defaultConfig, app_viewer = sync initialScene defaultConfig\<rparr>;
        a1 = handleMouseDown a0
               \<lparr>compartmentHit = None, bookcaseHit = True,
                planePoint = Some (Vector3 (Fin 1) (Fin 0) (Fin 1))\<rparr>;
        s2 = handleMouseMove (app_viewer a1)
               \<lparr>compartmentHit = None, bookcaseHit = True,
                planePoint = Some (Vector3 (Fin 1) (Fin 0) (Fin 5.75))\<rparr>;
        s3 = handleMouseUp s2
    in bookcase_position (app_viewer a0) = Vector3 (Fin 0) (Fin 0) (Fin (- 4.75)) \<and>
       isDragging (app_viewer a1) \<and>
       dragOffset (app_viewer a1) = Vector3 (Fin 1) (Fin 0) (Fin 5.75) \<and>
       bookcase_position s3 = Vector3 (Fin 0) (Fin 0) (Fin 0) \<and>
       bookcase_position s3 \<noteq> bookcase_position (app_viewer a0) \<and>
       bookcase_position (sync s3 defaultConfig) = Vector3 (Fin 0) (Fin 0) (Fin (- 4.75)) \<and>
       bookcase_position (sync s3 defaultConfig) \<noteq> bookcase_position s3)"
proof -
  define s1 where "s1 = sync initialScene defaultConfig"
  have p: "bookcase_position s1 = Vector3 (Fin 0) (Fin 0) (Fin (- 4.75))"
    unfolding s1_def by (rule first_build_position)
  have "(let a0 = \<lparr>app_config = defaultConfig, app_viewer = s1\<rparr>;
        a1 = handleMouseDown a0
               \<lparr>compartmentHit = None, bookcaseHit = True,
                planePoint = Some (Vector3 (Fin 1) (Fin 0) (Fin 1))\<rparr>;
        s2 = handleMouseMove (app_viewer a1)
               \<lparr>compartmentHit = None, bookcaseHit = True,
                planePoint = Some (Vector3 (Fin 1) (Fin 0) (Fin 5.75))\<rparr>;
        s3 = handleMouseUp s2
    in bookcase_position (app_viewer a0) = Vector3 (Fin 0) (Fin 0) (Fin (- 4.75)) \<and>
       isDragging (app_viewer a1) \<and>
       dragOffset (app_viewer a1) = Vector3 (Fin 1) (Fin 0) (Fin 5.75) \<and>
       bookcase_position s3 = Vector3 (Fin 0) (Fin 0) (Fin 0) \<and>
       bookcase_position s3 \<noteq> bookcase_position (app_viewer a0) \<and>
       bookcase_position (sync s3 defaultConfig) = Vector3 (Fin 0) (Fin 0) (Fin (- 4.75)) \<and>
       bookcase_position (sync s3 defaultConfig) \<noteq> bookcase_position s3)"
    by (simp add: Let_def handleMouseDown_def handleMouseMove_def handleMouseUp_def
          intersectPoint_def p jsnum_ops sync_bookcase_position default_position_defaultConfig)
  then show ?thesis
    unfolding s1_def .
qed

theorem rebuild_resets_drag_to_origin_witness:
  "bookcase_position
     (handleMouseUp
       (handleMouseMove
         (app_viewer
           (handleMouseDown
             \<lparr>app_config = defaultConfig, app_viewer = sync initialScene defaultConfig\<rparr>
             \<lparr>compartmentHit = None, bookcaseHit = True,
              planePoint = Some (Vector3 (Fin 1) (Fin 0) (Fin 1))\<rparr>))
         \<lparr>compartmentHit = None, bookcaseHit = True,
          planePoint = Some (Vector3 (Fin 1) (Fin 0) (Fin 5.75))\<rparr>))
     = Vector3 (Fin 0) (Fin 0) (Fin 0) \<and>
   bookcase_position
     (sync
       (handleMouseUp
         (handleMouseMove
           (app_viewer
             (handleMouseDown
               \<lparr>app_config = defaultConfig, app_viewer = sync initialScene defaultConfig\<rparr>
               \<lparr>compartmentHit = None, bookcaseHit = True,
                planePoint = Some (Vector3 (Fin 1) (Fin 0) (Fin 1))\<rparr>))
           \<lparr>compartmentHit = None, bookcaseHit = True,
            planePoint = Some (Vector3 (Fin 1) (Fin 0) (Fin 5.75))\<rparr>))
       defaultConfig)
     = Vector3 (Fin 0) (Fin 0) (Fin (- 4.75))"
  using rebuild_resets_drag_to_origin unfolding Let_def by blast

lemmas builder_defs =
  sync_def createBookcase_def main_structure_def shelves_section_def divisions_section_def
  compartments_section_def drawers_section_def add_createBox_def createBox_def
  add_compartment_def compartment_mesh_def compartmentWidth_def compartmentHeight_def
  bookcaseGroup_add_def compartmentsGroup_add_def clear_bookcase_eq clear_compartments_eq
  teardown_events_def for_upto_fold upto_rec1 Let_def jsnum_ops

lemma twoCells_first_build:
  "map material_id (compartments_children (sync initialScene twoCells)) = [14, 14]"
  "map geometry_id (compartments_children (sync initialScene twoCells)) = [15, 16]"
  "map geometry_id (bookcase_children (sync initialScene twoCells)) = [2, 4, 6, 8, 11, 12]"
  "map material_id (bookcase_children (sync initialScene twoCells)) = [3, 5, 7, 9, 10, 13]"
  by (simp_all add: builder_defs twoCells_def defaultConfig_def initialScene_def)

section \<open>Properties of the teardown\<close>

lemma fresh_fold:
  assumes "\<And>x s. fresh_geometries s \<Longrightarrow> fresh_geometries (f x s)" and "fresh_geometries s"
  shows "fresh_geometries (fold f xs s)"
  using assms(2) by (induction xs arbitrary: s) (simp_all add: assms(1))

lemma fresh_bookcaseGroup_add:
  assumes "fresh_geometries s" and "next_id s \<le> geometry_id m" and "geometry_id m < n"
  shows "fresh_geometries (bookcaseGroup_add m (s\<lparr>next_id := n\<rparr>))"
proof -
  let ?old = "bookcase_children s @ compartments_children s"
  from assms(1) have d: "distinct (map geometry_id ?old)"
    and lt: "\<forall>x\<in>set ?old. geometry_id x < next_id s"
    by (simp_all add: fresh_geometries_def list_all_iff)
  from lt assms(2) have new: "geometry_id m \<notin> geometry_id ` set ?old"
    by force
  from lt assms(2,3) have lt': "\<forall>x\<in>set ?old. geometry_id x < n"
    by force
  from d new have "distinct (map geometry_id
      (bookcase_children s @ [m] @ compartments_children s))"
    by auto
  with lt' assms(3) show ?thesis
    by (simp add: fresh_geometries_def list_all_iff bookcaseGroup_add_def)
qed

lemma fresh_compartmentsGroup_add:
  assumes "fresh_geometries s" and "next_id s \<le> geometry_id m" and "geometry_id m < n"
  shows "fresh_geometries (compartmentsGroup_add m (s\<lparr>next_id := n\<rparr>))"
proof -
  let ?old = "bookcase_children s @ compartments_children s"
  from assms(1) have d: "distinct (map geometry_id ?old)"
    and lt: "\<forall>x\<in>set ?old. geometry_id x < next_id s"
    by (simp_all add: fresh_geometries_def list_all_iff)
  from lt assms(2) have new: "geometry_id m \<notin> geometry_id ` set ?old"
    by force
  from lt assms(2,3) have lt': "\<forall>x\<in>set ?old. geometry_id x < n"
    by force
  from d new have "distinct (map geometry_id
      (bookcase_children s @ compartments_children s @ [m]))"
    by auto
  with lt' assms(3) show ?thesis
    by (simp add: fresh_geometries_def list_all_iff compartmentsGroup_add_def)
qed

lemma fresh_next_id:
  assumes "fresh_geometries s" and "next_id s \<le> n"
  shows "fresh_geometries (s\<lparr>next_id := n\<rparr>)"
proof -
  let ?old = "bookcase_children s @ compartments_children s"
  from assms(1) have d: "distinct (map geometry_id ?old)"
    and lt: "\<forall>x\<in>set ?old. geometry_id x < next_id s"
    by (simp_all add: fresh_geometries_def list_all_iff)
  from lt assms(2) have "\<forall>x\<in>set ?old. geometry_id x < n"
    by force
  with d show ?thesis
    by (simp add: fresh_geometries_def list_all_iff)
qed

lemma fresh_add_mesh:
  assumes "fresh_geometries t" and "0 < n"
  shows "fresh_geometries
      (bookcaseGroup_add
        \<lparr>geometry_id = next_id t, geometry = g, material_id = i, material = k,
         position = p, userData = u\<rparr> (t\<lparr>next_id := next_id t + n\<rparr>))"
  by (rule fresh_bookcaseGroup_add [OF assms(1)]) (use assms(2) in simp_all)

lemma fresh_add_mesh_Suc:
  assumes "fresh_geometries t"
  shows "fresh_geometries
      (bookcaseGroup_add
        \<lparr>geometry_id = next_id t, geometry = g, material_id = i, material = k,
         position = p, userData = u\<rparr> (t\<lparr>next_id := Suc (next_id t)\<rparr>))"
  by (rule fresh_bookcaseGroup_add [OF assms]) simp_all

lemma fresh_add_createBox:
  "fresh_geometries s \<Longrightarrow> fresh_geometries (add_createBox col w h d px py pz s)"
  unfolding add_createBox_def
  by (rule fresh_bookcaseGroup_add) (simp_all add: createBox_def)

lemma fresh_main_structure:
  assumes "fresh_geometries s"
  shows "fresh_geometries (main_structure cfg s)"
proof -
  have bp: "fresh_geometries
      (bookcaseGroup_add
        \<lparr>geometry_id = Suc (next_id t), geometry = g, material_id = next_id t, material = k,
         position = p, userData = u\<rparr> (t\<lparr>next_id := next_id t + 2\<rparr>))"
    if "fresh_geometries t" for t g k p u
    by (rule fresh_bookcaseGroup_add [OF that]) simp_all
  show ?thesis
    unfolding main_structure_def Let_def
    by (intro bp fresh_add_createBox assms)
qed

lemma fresh_shelves_section:
  "fresh_geometries s \<Longrightarrow> fresh_geometries (shelves_section cfg s)"
  unfolding shelves_section_def Let_def for_upto_fold
  by (simp add: fresh_fold fresh_add_createBox)

lemma fresh_divisions_section:
  "fresh_geometries s \<Longrightarrow> fresh_geometries (divisions_section cfg s)"
  unfolding divisions_section_def Let_def for_upto_fold
  by (simp add: fresh_fold fresh_add_createBox)

lemma fresh_add_compartment:
  "fresh_geometries s \<Longrightarrow> fresh_geometries (add_compartment cfg cm r c s)"
  unfolding add_compartment_def
  by (rule fresh_compartmentsGroup_add) (simp_all add: compartment_mesh_def Let_def)

lemma fresh_compartments_section:
  assumes "fresh_geometries s"
  shows "fresh_geometries (compartments_section cfg s)"
proof -
  have "fresh_geometries (s\<lparr>next_id := Suc (next_id s)\<rparr>)"
    by (rule fresh_next_id [OF assms]) simp
  then show ?thesis
    unfolding compartments_section_fold
    by (intro fresh_fold fresh_add_compartment)
qed

lemma fresh_add_frame:
  "fresh_geometries s \<Longrightarrow> fresh_geometries (add_frame cfg fm dx dy dz fr s)"
  unfolding add_frame_def
  by (cases fr) (simp add: fresh_add_mesh_Suc)

lemma fresh_add_drawer:
  assumes "fresh_geometries s"
  shows "fresh_geometries (add_drawer cfg dr s)"
proof (cases "type dr")
  case Solid
  show ?thesis
    unfolding add_drawer_def Let_def
    by (simp only: Solid if_True if_False drawer_type.distinct simp_thms)
       (intro fresh_add_mesh assms; simp)
next
  case Glass
  show ?thesis
    unfolding add_drawer_def Let_def
    by (simp only: Glass if_True if_False drawer_type.distinct simp_thms)
       (intro fresh_add_mesh_Suc fresh_fold fresh_add_frame fresh_next_id
          fresh_add_mesh assms; simp)
qed

lemma fresh_drawers_section:
  "fresh_geometries s \<Longrightarrow> fresh_geometries (drawers_section cfg s)"
  by (simp add: drawers_section_def fresh_fold fresh_add_drawer)

lemma fresh_createBookcase:
  assumes "fresh_geometries s"
  shows "fresh_geometries (createBookcase s cfg)"
proof -
  have "fresh_geometries (s\<lparr>next_id := next_id s + 2\<rparr>)"
    by (rule fresh_next_id [OF assms]) simp
  then have "fresh_geometries (drawers_section cfg (compartments_section cfg
      (divisions_section cfg (shelves_section cfg (main_structure cfg
        (s\<lparr>next_id := next_id s + 2\<rparr>))))))"
    by (intro fresh_drawers_section fresh_compartments_section fresh_divisions_section
          fresh_shelves_section fresh_main_structure)
  then show ?thesis
    by (simp add: createBookcase_def Let_def fresh_geometries_def)
qed

lemma fresh_sync: "fresh_geometries (sync s cfg)"
proof -
  have "fresh_geometries (clear_compartments (clear_bookcase s))"
    by (simp add: clear_bookcase_eq clear_compartments_eq fresh_geometries_def)
  from fresh_createBookcase [OF this, of cfg] show ?thesis
    by (simp add: sync_def Let_def fresh_geometries_def)
qed

lemma teardown_events_append:
  "teardown_events (xs @ ys) = teardown_events xs @ teardown_events ys"
  by (simp add: teardown_events_def)

lemma count_geometry_disposed:
  "count_list (teardown_events ms) (GeometryDisposed g) = count_list (map geometry_id ms) g"
  by (induction ms) (simp_all add: teardown_events_def)

lemma count_material_disposed:
  "count_list (teardown_events ms) (MaterialDisposed i) = count_list (map material_id ms) i"
  by (induction ms) (simp_all add: teardown_events_def)

lemma count_removed:
  "count_list (teardown_events ms) (Removed m) = count_list ms m"
  by (induction ms) (simp_all add: teardown_events_def)

lemma count_list_distinct:
  "distinct xs \<Longrightarrow> x \<in> set xs \<Longrightarrow> count_list xs x = 1"
  by (induction xs) auto

lemma count_list_member: "x \<in> set xs \<Longrightarrow> 1 \<le> count_list xs x"
  by (induction xs) auto

text \<open>
  Claim C7, as the code has it. A rebuild of a scene that an earlier rebuild has built
  takes the meshes of the bookcase group and then those of the compartments group, in
  order; each mesh is first removed from its group, then its geometry and then its
  material are disposed. Every geometry of a removed mesh is disposed exactly once. A
  material is disposed once for every removed mesh that refers to it: at least once, and
  more than once when meshes share it.
\<close>

theorem teardown_disposals:
  "(let built = sync s cfgA;
        removed = bookcase_children built @ compartments_children built;
        trace = teardown_events removed
    in disposal_log (sync built cfgB) = disposal_log built @ trace \<and>
       (\<forall>m\<in>set removed.
          count_list trace (GeometryDisposed (geometry_id m)) = 1 \<and>
          1 \<le> count_list trace (MaterialDisposed (material_id m)) \<and>
          1 \<le> count_list trace (Removed m)) \<and>
       (\<forall>i. count_list trace (MaterialDisposed i) = count_list (map material_id removed) i))"
proof -
  define built where "built = sync s cfgA"
  define removed where "removed = bookcase_children built @ compartments_children built"
  have "fresh_geometries built"
    unfolding built_def by (rule fresh_sync)
  then have d: "distinct (map geometry_id removed)"
    by (simp add: fresh_geometries_def removed_def)
  have 1: "disposal_log (sync built cfgB) = disposal_log built @ teardown_events removed"
    by (simp add: sync_frame removed_def teardown_events_append)
  have 2: "count_list (teardown_events removed) (GeometryDisposed (geometry_id m)) = 1"
    if "m \<in> set removed" for m
    unfolding count_geometry_disposed
    by (rule count_list_distinct [OF d]) (use that in simp)
  have 3: "1 \<le> count_list (teardown_events removed) (MaterialDisposed (material_id m))"
    if "m \<in> set removed" for m
    unfolding count_material_disposed
    by (rule count_list_member) (use that in simp)
  have 4: "1 \<le> count_list (teardown_events removed) (Removed m)"
    if "m \<in> set removed" for m
    unfolding count_removed
    by (rule count_list_member) (rule that)
  have 5: "count_list (teardown_events removed) (MaterialDisposed i)
      = count_list (map material_id removed) i" for i
    by (rule count_material_disposed)
  from 1 2 3 4 5 show ?thesis
    unfolding Let_def built_def [symmetric] removed_def [symmetric] by blast
qed

lemma twoCells_removed:
  "map geometry_id (bookcase_children (sync initialScene twoCells) @
      compartments_children (sync initialScene twoCells)) = [2, 4, 6, 8, 11, 12, 15, 16]"
  "map material_id (bookcase_children (sync initialScene twoCells) @
      compartments_children (sync initialScene twoCells)) = [3, 5, 7, 9, 10, 13, 14, 14]"
  by (simp_all add: twoCells_first_build)

theorem teardown_disposals_witness:
  "compartments_children (sync initialScene twoCells) ! 0 \<in>
     set (bookcase_children (sync initialScene twoCells) @
          compartments_children (sync initialScene twoCells)) \<and>
   geometry_id (compartments_children (sync initialScene twoCells) ! 0) = 15 \<and>
   count_list (teardown_events (bookcase_children (sync initialScene twoCells) @
        compartments_children (sync initialScene twoCells))) (GeometryDisposed 15) = 1 \<and>
   count_list (teardown_events (bookcase_children (sync initialScene twoCells) @
        compartments_children (sync initialScene twoCells))) (MaterialDisposed 14) = 2"
proof -
  let ?built = "sync initialScene twoCells"
  let ?m = "compartments_children ?built ! 0"
  have len: "length (compartments_children ?built) = 2"
    using arg_cong [OF twoCells_first_build(1), of length] by simp
  then have mem: "?m \<in> set (bookcase_children ?built @ compartments_children ?built)"
    by simp
  have g: "geometry_id ?m = 15"
    using arg_cong [OF twoCells_first_build(2), of "\<lambda>xs. xs ! 0"] len by simp
  from mem g teardown_disposals [of initialScene twoCells defaultConfig] show ?thesis
    unfolding Let_def
    by (auto simp: twoCells_first_build(1,4) simp del: set_append)
qed

text \<open>
  Claim C7 as stated fails. With one shelf and no division there are two hit-regions, and
  both refer to the one \<open>compartmentMaterial\<close> (object 14): the next rebuild disposes that
  material twice. It also removes each mesh from its group before it disposes the mesh's
  geometry, not after: the teardown starts by removing the bottom panel, whose geometry
  (object 2) is disposed next.
\<close>

theorem shared_material_disposed_twice:
  "map material_id (compartments_children (sync initialScene twoCells)) = [14, 14] \<and>
   disposal_log (sync initialScene twoCells) = [] \<and>
   count_list (disposal_log (sync (sync initialScene twoCells) twoCells)) (MaterialDisposed 14)
     = 2 \<and>
   take 2 (disposal_log (sync (sync initialScene twoCells) twoCells)) =
     [Removed (bookcase_children (sync initialScene twoCells) ! 0), GeometryDisposed 2]"
proof -
  let ?built = "sync initialScene twoCells"
  have log0: "disposal_log ?built = []"
    by (simp add: sync_frame) (simp add: initialScene_def teardown_events_def)
  have log: "disposal_log (sync ?built twoCells) =
      teardown_events (bookcase_children ?built @ compartments_children ?built)"
    by (rule trans [OF sync_frame(4)]) (simp add: log0 teardown_events_append)
  have c: "count_list (disposal_log (sync ?built twoCells)) (MaterialDisposed 14) = 2"
    unfolding log count_material_disposed twoCells_removed by simp
  obtain m ms where ch: "bookcase_children ?built = m # ms"
    using arg_cong [OF twoCells_first_build(3), of length]
    by (cases "bookcase_children ?built") simp_all
  with twoCells_first_build(3) have "geometry_id m = 2" by simp
  with ch have t: "take 2 (disposal_log (sync ?built twoCells)) =
      [Removed (bookcase_children ?built ! 0), GeometryDisposed 2]"
    unfolding log by (simp add: teardown_events_def)
  from twoCells_first_build(1) log0 c t show ?thesis by blast
qed

section \<open>Properties of the layout\<close>

lemma bookcase_layout_closed_form:
  "map mesh_layout (emitted_bookcase s cfg) =
     [(BoxGeometry (width cfg) (thickness cfg) (depth cfg), WoodMaterial (color cfg),
         Vector3 (Fin 0) (thickness cfg / Fin 2) (Fin 0), None),
      (BoxGeometry (width cfg) (thickness cfg) (depth cfg), WoodMaterial (color cfg),
         Vector3 (Fin 0) (height cfg - thickness cfg / Fin 2) (Fin 0), None),
      (BoxGeometry (thickness cfg) (height cfg) (depth cfg), WoodMaterial (color cfg),
         Vector3 (- width cfg / Fin 2 + thickness cfg / Fin 2) (height cfg / Fin 2) (Fin 0), None),
      (BoxGeometry (thickness cfg) (height cfg) (depth cfg), WoodMaterial (color cfg),
         Vector3 (width cfg / Fin 2 - thickness cfg / Fin 2) (height cfg / Fin 2) (Fin 0), None),
      (BoxGeometry (width cfg - thickness cfg * Fin 2) (height cfg - thickness cfg * Fin 2)
           (thickness cfg / Fin 2), BackMaterial (color cfg),
         Vector3 (Fin 0) (height cfg / Fin 2)
           (- depth cfg / Fin 2 + thickness cfg / Fin 2 / Fin 2), None)] @
     map (\<lambda>i. (BoxGeometry (width cfg - thickness cfg * Fin 2) (thickness cfg) (depth cfg),
                WoodMaterial (color cfg),
                Vector3 (Fin 0)
                  (thickness cfg + (height cfg - thickness cfg * Fin 2) / js_int (shelves cfg + 1)
                     * js_int i) (Fin 0), None))
        [1..shelves cfg] @
     map (\<lambda>i. (BoxGeometry (thickness cfg) (height cfg - thickness cfg * Fin 2) (depth cfg),
                WoodMaterial (color cfg),
                Vector3 (- width cfg / Fin 2 + thickness cfg
                   + (width cfg - thickness cfg * Fin 2) / js_int (divisions cfg + 1) * js_int i)
                  (height cfg / Fin 2) (Fin 0), None))
        [1..divisions cfg] @
     concat (map (\<lambda>dr. bookcase_layout (add_drawer cfg dr initialScene)) (drawers cfg))"
  unfolding emitted_bookcase_layout createBookcase_bookcase_layout
    emits_initial(1) [OF emits_main_structure, symmetric]
    emits_initial(1) [OF emits_shelves_section, symmetric]
    emits_initial(1) [OF emits_divisions_section, symmetric]
    emits_initial(1) [OF emits_drawers_section, symmetric]
  by simp

lemma take_drop_segments:
  assumes "length A = a" and "length B = b" and "length C = c"
  shows "take b (drop a (A @ B @ C @ D)) = B"
    and "take c (drop (a + b) (A @ B @ C @ D)) = C"
  using assms by simp_all

lemma panel_positions:
  assumes "0 \<le> shelves cfg" and "0 \<le> divisions cfg"
  shows "map position (horizontal_panels (emitted_bookcase s cfg) cfg) =
      Vector3 (Fin 0) (thickness cfg / Fin 2) (Fin 0) #
      map (\<lambda>i. Vector3 (Fin 0)
             (thickness cfg + (height cfg - thickness cfg * Fin 2) / js_int (shelves cfg + 1)
                * js_int i) (Fin 0)) [1..shelves cfg] @
      [Vector3 (Fin 0) (height cfg - thickness cfg / Fin 2) (Fin 0)]"
    and "map position (vertical_panels (emitted_bookcase s cfg) cfg) =
      Vector3 (- width cfg / Fin 2 + thickness cfg / Fin 2) (height cfg / Fin 2) (Fin 0) #
      map (\<lambda>i. Vector3 (- width cfg / Fin 2 + thickness cfg
                   + (width cfg - thickness cfg * Fin 2) / js_int (divisions cfg + 1) * js_int i)
                  (height cfg / Fin 2) (Fin 0)) [1..divisions cfg] @
      [Vector3 (width cfg / Fin 2 - thickness cfg / Fin 2) (height cfg / Fin 2) (Fin 0)]"
proof -
  let ?ch = "emitted_bookcase s cfg"
  let ?L = "map mesh_layout ?ch"
  note cf = bookcase_layout_closed_form [of s cfg]
  have len: "5 \<le> length ?ch"
    using arg_cong [OF cf, of length] by simp
  have pos: "map position ms = map (\<lambda>l. fst (snd (snd l))) (map mesh_layout ms)" for ms
    by (simp add: mesh_layout_def)
  have nth: "position (?ch ! i) = fst (snd (snd (?L ! i)))" if "i < 5" for i
    using that len by (simp add: mesh_layout_def)
  have sh: "length [1..shelves cfg] = nat (shelves cfg)"
    using assms(1) by simp
  have dv: "length [1..divisions cfg] = nat (divisions cfg)"
    using assms(2) by simp
  have "map position (take (nat (shelves cfg)) (drop 5 ?ch))
      = map (\<lambda>l. fst (snd (snd l))) (take (nat (shelves cfg)) (drop 5 ?L))"
    by (simp add: pos take_map drop_map)
  also have "\<dots> = map (\<lambda>i. Vector3 (Fin 0)
             (thickness cfg + (height cfg - thickness cfg * Fin 2) / js_int (shelves cfg + 1)
                * js_int i) (Fin 0)) [1..shelves cfg]"
    unfolding cf
    by (subst take_drop_segments(1) [where c = "nat (divisions cfg)"])
       (simp_all add: sh dv comp_def del: length_upto)
  finally have shelves_pos: "map position (take (nat (shelves cfg)) (drop 5 ?ch)) =
      map (\<lambda>i. Vector3 (Fin 0)
             (thickness cfg + (height cfg - thickness cfg * Fin 2) / js_int (shelves cfg + 1)
                * js_int i) (Fin 0)) [1..shelves cfg]" .
  have "map position (take (nat (divisions cfg)) (drop (5 + nat (shelves cfg)) ?ch))
      = map (\<lambda>l. fst (snd (snd l)))
          (take (nat (divisions cfg)) (drop (5 + nat (shelves cfg)) ?L))"
    by (simp add: pos take_map drop_map)
  also have "\<dots> = map (\<lambda>i. Vector3 (- width cfg / Fin 2 + thickness cfg
                   + (width cfg - thickness cfg * Fin 2) / js_int (divisions cfg + 1) * js_int i)
                  (height cfg / Fin 2) (Fin 0)) [1..divisions cfg]"
    unfolding cf
    by (subst take_drop_segments(2)) (simp_all add: sh dv comp_def del: length_upto)
  finally have divisions_pos:
    "map position (take (nat (divisions cfg)) (drop (5 + nat (shelves cfg)) ?ch)) =
      map (\<lambda>i. Vector3 (- width cfg / Fin 2 + thickness cfg
                   + (width cfg - thickness cfg * Fin 2) / js_int (divisions cfg + 1) * js_int i)
                  (height cfg / Fin 2) (Fin 0)) [1..divisions cfg]" .
  show "map position (horizontal_panels ?ch cfg) =
      Vector3 (Fin 0) (thickness cfg / Fin 2) (Fin 0) #
      map (\<lambda>i. Vector3 (Fin 0)
             (thickness cfg + (height cfg - thickness cfg * Fin 2) / js_int (shelves cfg + 1)
                * js_int i) (Fin 0)) [1..shelves cfg] @
      [Vector3 (Fin 0) (height cfg - thickness cfg / Fin 2) (Fin 0)]"
    unfolding horizontal_panels_def
    by (simp add: shelves_pos nth del: upto.simps) (simp add: cf)
  show "map position (vertical_panels ?ch cfg) =
      Vector3 (- width cfg / Fin 2 + thickness cfg / Fin 2) (height cfg / Fin 2) (Fin 0) #
      map (\<lambda>i. Vector3 (- width cfg / Fin 2 + thickness cfg
                   + (width cfg - thickness cfg * Fin 2) / js_int (divisions cfg + 1) * js_int i)
                  (height cfg / Fin 2) (Fin 0)) [1..divisions cfg] @
      [Vector3 (width cfg / Fin 2 - thickness cfg / Fin 2) (height cfg / Fin 2) (Fin 0)]"
    unfolding vertical_panels_def
    by (simp add: divisions_pos nth del: upto.simps) (simp add: cf)
qed

lemma valid_config_reals:
  assumes "valid_config cfg"
  obtains w h d t where "width cfg = Fin w" "height cfg = Fin h" "depth cfg = Fin d"
    "thickness cfg = Fin t" "0 < w" "0 < h" "0 < d" "0 < t" "t * 2 < w" "t * 2 < h"
    "0 \<le> shelves cfg" "0 \<le> divisions cfg"
proof -
  from assms obtain w h d t where 1: "width cfg = Fin w" "height cfg = Fin h"
    "depth cfg = Fin d" "thickness cfg = Fin t"
    unfolding valid_config_def
    by (cases "width cfg"; cases "height cfg"; cases "depth cfg"; cases "thickness cfg") simp_all
  with assms have "0 < w" "0 < h" "0 < d" "0 < t" "t * 2 < w" "t * 2 < h"
    "0 \<le> shelves cfg" "0 \<le> divisions cfg"
    by (simp_all add: valid_config_def jsnum_ops)
  with 1 show thesis by (rule that)
qed



lemma fold_push: "fold (\<lambda>i acc. acc @ [g i]) xs acc0 = acc0 @ map g xs"
  by (induction xs arbitrary: acc0) simp_all

lemma shelfPositions_map:
  "shelfPositions cfg =
     map (\<lambda>i. js_int i / js_int (shelves cfg) * height cfg - height cfg / Fin 2)
       [0..shelves cfg]"
  by (simp add: shelfPositions_def for_upto_fold fold_push)

lemma divisionPositions_map:
  "divisionPositions cfg =
     map (\<lambda>i. js_int i / js_int (divisions cfg) * width cfg - width cfg / Fin 2)
       [0..divisions cfg]"
  by (simp add: divisionPositions_def for_upto_fold fold_push)








lemma valid_defaultConfig: "valid_config defaultConfig"
  by (simp add: valid_config_def defaultConfig_def jsnum_ops)



text \<open>
  The Bookcase component of \<open>Bookcase.tsx\<close>, which nothing renders (\<open>App\<close> renders
  \<open>BookcaseViewer\<close> and takes only the types from \<open>Bookcase.tsx\<close>), divides by the raw counts.
  Called with \<open>shelves = 0\<close> its loop would run once, for \<open>i = 0\<close>, and compute \<open>0 / 0\<close>:
  the one shelf position would be \<open>NaN\<close>, whatever the height; the same for
  \<open>divisions = 0\<close>.
\<close>

lemma Bookcase_positions_NaN:
  "shelfPositions (cfg\<lparr>shelves := 0\<rparr>) = [NaN] \<and>
   divisionPositions (cfg\<lparr>divisions := 0\<rparr>) = [NaN]"
  by (simp add: shelfPositions_map divisionPositions_map jsnum_ops)

theorem drag_leaves_compartments_behind_witness:
  "bookcase_position
     (handleMouseMove
       (app_viewer
         (handleMouseDown
           \<lparr>app_config = defaultConfig, app_viewer = sync initialScene defaultConfig\<rparr>
           \<lparr>compartmentHit = None, bookcaseHit = True,
            planePoint = Some (Vector3 (Fin 1) (Fin 0) (Fin 1))\<rparr>))
       \<lparr>compartmentHit = None, bookcaseHit = True,
        planePoint = Some (Vector3 (Fin 2) (Fin 0) (Fin 1))\<rparr>)
     = Vector3 (Fin 1) (Fin 0) (Fin (- 4.75)) \<and>
   compartments_position
     (handleMouseMove
       (app_viewer
         (handleMouseDown
           \<lparr>app_config = defaultConfig, app_viewer = sync initialScene defaultConfig\<rparr>
           \<lparr>compartmentHit = None, bookcaseHit = True,
            planePoint = Some (Vector3 (Fin 1) (Fin 0) (Fin 1))\<rparr>))
       \<lparr>compartmentHit = None, bookcaseHit = True,
        planePoint = Some (Vector3 (Fin 2) (Fin 0) (Fin 1))\<rparr>)
     = Vector3 (Fin 0) (Fin 0) (Fin (- 4.75))"
  using drag_leaves_compartments_behind unfolding Let_def by blast

lemma defaultConfig_first_build:
  "length (bookcase_children (sync initialScene defaultConfig)) = 11"
  "length (compartments_children (sync initialScene defaultConfig)) = 15"
  by (simp_all add: builder_defs defaultConfig_def initialScene_def)

theorem rebuild_round_trip_witness:
  "length (bookcase_children (sync (sync (sync initialScene defaultConfig) twoCells)
     defaultConfig)) = 11 \<and>
   length (compartments_children (sync (sync (sync initialScene defaultConfig) twoCells)
     defaultConfig)) = 15"
  using rebuild_round_trip [of initialScene defaultConfig twoCells]
  by (simp add: defaultConfig_first_build)

section \<open>Properties of the hit-regions\<close>

lemma hit_region_explicit:
  "map (\<lambda>m. (geometry m, material m, position m, userData m)) (emitted_compartments s cfg) =
     map (\<lambda>(r, c).
        (PlaneGeometry
           ((width cfg - thickness cfg * Fin 2) / js_int (divisions cfg + 1)
              - thickness cfg * Fin 2)
           ((height cfg - thickness cfg * Fin 2) / js_int (shelves cfg + 1)
              - thickness cfg * Fin 2),
         CompartmentMaterial,
         Vector3
           (- width cfg / Fin 2 + thickness cfg
              + (width cfg - thickness cfg * Fin 2) / js_int (divisions cfg + 1)
                  * (js_int c + Fin 0.5))
           (thickness cfg
              + (height cfg - thickness cfg * Fin 2) / js_int (shelves cfg + 1)
                  * (js_int r + Fin 0.5))
           (depth cfg / Fin 3),
         Some (r, c)))
       (List.product [0..shelves cfg] [0..divisions cfg])"
proof -
  have "map (\<lambda>m. (geometry m, material m, position m, userData m)) (emitted_compartments s cfg)
      = map mesh_layout (emitted_compartments s cfg)"
    by (simp add: mesh_layout_def)
  then show ?thesis
    unfolding emitted_compartments_layout hit_region_layout
    by (simp add: mesh_layout_def compartment_mesh_def compartmentWidth_def
          compartmentHeight_def Let_def split_def)
qed

lemma nth_panel_sequence:
  assumes "0 \<le> r" and "r \<le> n + 1"
  shows "(a # map f [1..n] @ [b]) ! nat r = (if r = 0 then a else if r \<le> n then f r else b)"
proof (cases "r = 0")
  case True
  then show ?thesis by simp
next
  case False
  define k where "k = nat (r - 1)"
  from False assms(1) have k: "nat r = Suc k" "r = int k + 1"
    by (simp_all add: k_def)
  have len: "length (map f [1..n]) = nat n"
    by simp
  show ?thesis
  proof (cases "r \<le> n")
    case True
    with k have "k < nat n" by simp
    moreover from True k have "[1..n] ! k = 1 + int k"
      by (intro nth_upto) simp
    ultimately show ?thesis
      using False True k by (simp add: nth_append add.commute)
  next
    case nle: False
    with assms(2) have "r = n + 1" by simp
    with k have "k = nat n" by simp
    with nle False k show ?thesis
      by (simp add: nth_append)
  qed
qed

lemma between_panels:
  fixes t u :: real and n r :: int
  assumes "0 < t" and "0 < u" and "0 \<le> r" and "r \<le> n"
  shows "(if r = 0 then t / 2 else t + u / of_int (n + 1) * of_int r)
           < t + u / of_int (n + 1) * (of_int r + 1 / 2)"
    and "t + u / of_int (n + 1) * (of_int r + 1 / 2)
           < (if r + 1 \<le> n then t + u / of_int (n + 1) * of_int (r + 1) else t + u + t / 2)"
proof -
  define k where "k = u / of_int (n + 1)"
  from assms have n1: "(0::real) < of_int (n + 1)" by simp
  with assms(2) have kpos: "0 < k" by (simp add: k_def)
  from n1 have ku: "k * of_int (n + 1) = u" by (simp add: k_def)
  have half: "k * (of_int r + 1 / 2) = k * of_int r + k / 2"
    by (simp add: algebra_simps)
  have nxt: "k * of_int (r + 1) = k * of_int r + k"
    by (simp add: algebra_simps)
  from assms(3) kpos have r0: "0 \<le> k * of_int r"
    by (intro mult_nonneg_nonneg) simp_all
  from assms(4) kpos have "k * of_int r \<le> k * of_int n"
    by (intro mult_left_mono) simp_all
  moreover have "k * of_int (n + 1) = k * of_int n + k"
    by (simp add: algebra_simps)
  ultimately have rn: "k * of_int r + k \<le> u"
    using ku by linarith
  show "(if r = 0 then t / 2 else t + u / of_int (n + 1) * of_int r)
           < t + u / of_int (n + 1) * (of_int r + 1 / 2)"
    unfolding k_def [symmetric] half using kpos assms(1) r0 by (simp split: if_splits)
  show "t + u / of_int (n + 1) * (of_int r + 1 / 2)
           < (if r + 1 \<le> n then t + u / of_int (n + 1) * of_int (r + 1) else t + u + t / 2)"
    unfolding k_def [symmetric] half nxt using kpos assms(1) rn by (simp split: if_splits)
qed

lemma centre_between_sequence:
  fixes t u :: real and n r :: int
  assumes "0 < t" and "0 < u" and "0 \<le> r" and "r \<le> n"
  defines "L \<equiv> t / 2 # map (\<lambda>i. t + u / of_int (n + 1) * of_int i) [1..n] @ [t + u + t / 2]"
  shows "L ! nat r < t + u / of_int (n + 1) * (of_int r + 1 / 2)"
    and "t + u / of_int (n + 1) * (of_int r + 1 / 2) < L ! nat (r + 1)"
proof -
  have a: "L ! nat r = (if r = 0 then t / 2 else t + u / of_int (n + 1) * of_int r)"
    unfolding L_def using assms(3,4) by (subst nth_panel_sequence) simp_all
  have b: "L ! nat (r + 1) =
      (if r + 1 \<le> n then t + u / of_int (n + 1) * of_int (r + 1) else t + u + t / 2)"
    unfolding L_def using assms(3,4) by (subst nth_panel_sequence) simp_all
  show "L ! nat r < t + u / of_int (n + 1) * (of_int r + 1 / 2)"
    unfolding a by (rule between_panels(1) [OF assms(1-4)])
  show "t + u / of_int (n + 1) * (of_int r + 1 / 2) < L ! nat (r + 1)"
    unfolding b by (rule between_panels(2) [OF assms(1-4)])
qed

lemma hit_region_between_panels:
  assumes "valid_config cfg" and "m \<in> set (emitted_compartments s cfg)"
    and "userData m = Some (r, c)"
  shows "0 \<le> r \<and> r \<le> shelves cfg \<and> 0 \<le> c \<and> c \<le> divisions cfg \<and>
    js_lt (vec_y (position (horizontal_panels (emitted_bookcase s cfg) cfg ! nat r)))
          (vec_y (position m)) \<and>
    js_lt (vec_y (position m))
          (vec_y (position (horizontal_panels (emitted_bookcase s cfg) cfg ! nat (r + 1)))) \<and>
    js_lt (vec_x (position (vertical_panels (emitted_bookcase s cfg) cfg ! nat c)))
          (vec_x (position m)) \<and>
    js_lt (vec_x (position m))
          (vec_x (position (vertical_panels (emitted_bookcase s cfg) cfg ! nat (c + 1))))"
proof -
  from assms(1) obtain w h d t where v: "width cfg = Fin w" "height cfg = Fin h"
    "depth cfg = Fin d" "thickness cfg = Fin t" "0 < w" "0 < h" "0 < d" "0 < t"
    "t * 2 < w" "t * 2 < h" "0 \<le> shelves cfg" "0 \<le> divisions cfg"
    by (rule valid_config_reals)
  let ?hp = "horizontal_panels (emitted_bookcase s cfg) cfg"
  let ?vp = "vertical_panels (emitted_bookcase s cfg) cfg"
  let ?n = "shelves cfg" and ?k = "divisions cfg"
  let ?Ly = "t / 2 # map (\<lambda>i. t + (h - t * 2) / of_int (?n + 1) * of_int i) [1..?n] @
      [t + (h - t * 2) + t / 2]"
  let ?Lx = "t / 2 # map (\<lambda>i. t + (w - t * 2) / of_int (?k + 1) * of_int i) [1..?k] @
      [t + (w - t * 2) + t / 2]"
  have n0: "(of_int (?n + 1) :: real) \<noteq> 0" "(of_int (?k + 1) :: real) \<noteq> 0"
    using v(11,12) by simp_all
  \<comment> \<open>the hit-region\<close>
  from assms(2) have "(geometry m, material m, position m, userData m) \<in>
      set (map (\<lambda>m. (geometry m, material m, position m, userData m))
        (emitted_compartments s cfg))"
    by simp
  then obtain r' c' where rc: "(r', c') \<in> set (List.product [0..?n] [0..?k])"
    and pos: "position m = Vector3
           (- width cfg / Fin 2 + thickness cfg
              + (width cfg - thickness cfg * Fin 2) / js_int (?k + 1) * (js_int c' + Fin 0.5))
           (thickness cfg
              + (height cfg - thickness cfg * Fin 2) / js_int (?n + 1) * (js_int r' + Fin 0.5))
           (depth cfg / Fin 3)"
    and ud: "userData m = Some (r', c')"
    unfolding hit_region_explicit by auto
  from ud assms(3) have eq: "r' = r" "c' = c" by simp_all
  from rc eq have range: "0 \<le> r" "r \<le> ?n" "0 \<le> c" "c \<le> ?k" by auto
  from pos n0 have my: "vec_y (position m) =
      Fin (t + (h - t * 2) / of_int (?n + 1) * (of_int r + 1 / 2))"
    and mx: "vec_x (position m) =
      Fin (t + (w - t * 2) / of_int (?k + 1) * (of_int c + 1 / 2) - w / 2)"
    by (simp_all add: eq v(1-4) jsnum_ops)
  \<comment> \<open>the panels\<close>
  have ys: "map (\<lambda>m. vec_y (position m)) ?hp = map Fin ?Ly"
  proof -
    have "map (\<lambda>m. vec_y (position m)) ?hp = map vec_y (map position ?hp)" by simp
    also have "\<dots> = map Fin ?Ly"
      unfolding panel_positions(1) [OF v(11,12)] using n0 by (simp add: v(1-4) jsnum_ops)
    finally show ?thesis .
  qed
  have xs: "map (\<lambda>m. vec_x (position m)) ?vp = map (\<lambda>y. Fin (y - w / 2)) ?Lx"
  proof -
    have "map (\<lambda>m. vec_x (position m)) ?vp = map vec_x (map position ?vp)" by simp
    also have "\<dots> = map (\<lambda>y. Fin (y - w / 2)) ?Lx"
      unfolding panel_positions(2) [OF v(11,12)] using n0
      by (simp add: v(1-4) jsnum_ops algebra_simps)
    finally show ?thesis .
  qed
  have leny: "length ?hp = length ?Ly" and lenx: "length ?vp = length ?Lx"
    using arg_cong [OF ys, of length] arg_cong [OF xs, of length] by simp_all
  have ny: "vec_y (position (?hp ! i)) = Fin (?Ly ! i)" if "i < length ?Ly" for i
    using arg_cong [OF ys, of "\<lambda>l. l ! i"] that leny by (simp only: nth_map)
  have nx: "vec_x (position (?vp ! i)) = Fin (?Lx ! i - w / 2)" if "i < length ?Lx" for i
    using arg_cong [OF xs, of "\<lambda>l. l ! i"] that lenx by (simp only: nth_map)
  have iy: "nat r < length ?Ly" "nat (r + 1) < length ?Ly"
    using range v(11) by simp_all
  have ix: "nat c < length ?Lx" "nat (c + 1) < length ?Lx"
    using range v(12) by simp_all
  have uy: "0 < h - t * 2" and ux: "0 < w - t * 2"
    using v(9,10) by simp_all
  note by1 = centre_between_sequence [OF v(8) uy range(1,2)]
  note bx1 = centre_between_sequence [OF v(8) ux range(3,4)]
  have 1: "js_lt (vec_y (position (?hp ! nat r))) (vec_y (position m))"
    unfolding ny [OF iy(1)] my using by1(1) by simp
  have 2: "js_lt (vec_y (position m)) (vec_y (position (?hp ! nat (r + 1))))"
    unfolding ny [OF iy(2)] my using by1(2) by simp
  have 3: "js_lt (vec_x (position (?vp ! nat c))) (vec_x (position m))"
    unfolding nx [OF ix(1)] mx using bx1(1) by simp
  have 4: "js_lt (vec_x (position m)) (vec_x (position (?vp ! nat (c + 1))))"
    unfolding nx [OF ix(2)] mx using bx1(2) by simp
  from range 1 2 3 4 show ?thesis by blast
qed

text \<open>
  Claim C2. With \<open>shelves \<ge> 0\<close> and \<open>divisions \<ge> 0\<close>, \<open>createBookcase\<close> adds exactly
  \<open>(shelves + 1) * (divisions + 1)\<close> meshes to the compartments group. Their tags are the
  pairs \<open>(row, column)\<close> with \<open>0 \<le> row \<le> shelves\<close> and \<open>0 \<le> column \<le> divisions\<close>, each pair
  once (row by row), and each of them carries the material of opacity 0. The mesh tagged
  \<open>(row, column)\<close> is a plane of width \<open>compartmentWidth - 2 * thickness\<close> and height
  \<open>compartmentHeight - 2 * thickness\<close>, centred at
  \<open>x = - width / 2 + thickness + compartmentWidth * (column + 0.5)\<close>,
  \<open>y = thickness + compartmentHeight * (row + 0.5)\<close>, \<open>z = depth / 3\<close>, where
  \<open>compartmentWidth = (width - 2 * thickness) / (divisions + 1)\<close> and
  \<open>compartmentHeight = (height - 2 * thickness) / (shelves + 1)\<close>. In a valid configuration
  this centre lies strictly between the centres of the horizontal panels number \<open>row\<close> and
  \<open>row + 1\<close>, counted from the bottom panel, and of the vertical panels number \<open>column\<close> and
  \<open>column + 1\<close>, counted from the left side: each hit-region lies in the compartment whose
  tag it carries.
\<close>

theorem createBookcase_hit_regions:
  assumes "0 \<le> shelves cfg" and "0 \<le> divisions cfg"
  shows "length (compartments_children (createBookcase s cfg)) =
           length (compartments_children s) + nat ((shelves cfg + 1) * (divisions cfg + 1)) \<and>
         length (emitted_compartments s cfg) = nat ((shelves cfg + 1) * (divisions cfg + 1)) \<and>
         map userData (emitted_compartments s cfg) =
           map Some (List.product [0..shelves cfg] [0..divisions cfg]) \<and>
         distinct (map userData (emitted_compartments s cfg)) \<and>
         set (map userData (emitted_compartments s cfg)) =
           Some ` ({0..shelves cfg} \<times> {0..divisions cfg}) \<and>
         (\<forall>m\<in>set (emitted_compartments s cfg).
            material m = CompartmentMaterial \<and> opacity (material m) = 0) \<and>
         map (\<lambda>m. (geometry m, material m, position m, userData m))
             (emitted_compartments s cfg) =
           map (\<lambda>(r, c).
              (PlaneGeometry
                 ((width cfg - thickness cfg * Fin 2) / js_int (divisions cfg + 1)
                    - thickness cfg * Fin 2)
                 ((height cfg - thickness cfg * Fin 2) / js_int (shelves cfg + 1)
                    - thickness cfg * Fin 2),
               CompartmentMaterial,
               Vector3
                 (- width cfg / Fin 2 + thickness cfg
                    + (width cfg - thickness cfg * Fin 2) / js_int (divisions cfg + 1)
                        * (js_int c + Fin 0.5))
                 (thickness cfg
                    + (height cfg - thickness cfg * Fin 2) / js_int (shelves cfg + 1)
                        * (js_int r + Fin 0.5))
                 (depth cfg / Fin 3),
               Some (r, c)))
             (List.product [0..shelves cfg] [0..divisions cfg]) \<and>
         (valid_config cfg \<longrightarrow>
            (\<forall>m\<in>set (emitted_compartments s cfg). \<forall>r c. userData m = Some (r, c) \<longrightarrow>
               0 \<le> r \<and> r \<le> shelves cfg \<and> 0 \<le> c \<and> c \<le> divisions cfg \<and>
               js_lt (vec_y (position (horizontal_panels (emitted_bookcase s cfg) cfg ! nat r)))
                     (vec_y (position m)) \<and>
               js_lt (vec_y (position m))
                     (vec_y (position
                        (horizontal_panels (emitted_bookcase s cfg) cfg ! nat (r + 1)))) \<and>
               js_lt (vec_x (position (vertical_panels (emitted_bookcase s cfg) cfg ! nat c)))
                     (vec_x (position m)) \<and>
               js_lt (vec_x (position m))
                     (vec_x (position
                        (vertical_panels (emitted_bookcase s cfg) cfg ! nat (c + 1))))))"
proof -
  note len = length_product_upto [OF assms]
  have 1: "length (compartments_children (createBookcase s cfg)) =
           length (compartments_children s) + nat ((shelves cfg + 1) * (divisions cfg + 1))"
    by (simp only: createBookcase_compartments_length len)
  have 3: "map userData (emitted_compartments s cfg) =
           map Some (List.product [0..shelves cfg] [0..divisions cfg])"
    by (rule emitted_compartments_userData)
  have "length (emitted_compartments s cfg) = length (map userData (emitted_compartments s cfg))"
    by simp
  also have "\<dots> = nat ((shelves cfg + 1) * (divisions cfg + 1))"
    by (simp only: 3 length_map len)
  finally have 2: "length (emitted_compartments s cfg) = nat ((shelves cfg + 1) * (divisions cfg + 1))" .
  have 4: "distinct (map userData (emitted_compartments s cfg))"
    unfolding 3 by (simp add: distinct_map distinct_product)
  have 5: "set (map userData (emitted_compartments s cfg)) =
           Some ` ({0..shelves cfg} \<times> {0..divisions cfg})"
    unfolding 3 by simp
  have "set (map material (emitted_compartments s cfg)) \<subseteq> {CompartmentMaterial}"
    unfolding emitted_compartments_material by auto
  then have 6: "\<forall>m\<in>set (emitted_compartments s cfg).
            material m = CompartmentMaterial \<and> opacity (material m) = 0"
    by auto
  note 7 = hit_region_explicit [of s cfg]
  have 8: "valid_config cfg \<longrightarrow>
            (\<forall>m\<in>set (emitted_compartments s cfg). \<forall>r c. userData m = Some (r, c) \<longrightarrow>
               0 \<le> r \<and> r \<le> shelves cfg \<and> 0 \<le> c \<and> c \<le> divisions cfg \<and>
               js_lt (vec_y (position (horizontal_panels (emitted_bookcase s cfg) cfg ! nat r)))
                     (vec_y (position m)) \<and>
               js_lt (vec_y (position m))
                     (vec_y (position
                        (horizontal_panels (emitted_bookcase s cfg) cfg ! nat (r + 1)))) \<and>
               js_lt (vec_x (position (vertical_panels (emitted_bookcase s cfg) cfg ! nat c)))
                     (vec_x (position m)) \<and>
               js_lt (vec_x (position m))
                     (vec_x (position
                        (vertical_panels (emitted_bookcase s cfg) cfg ! nat (c + 1)))))"
  proof (intro impI ballI allI)
    fix m r c
    assume "valid_config cfg" and "m \<in> set (emitted_compartments s cfg)"
      and "userData m = Some (r, c)"
    then show "0 \<le> r \<and> r \<le> shelves cfg \<and> 0 \<le> c \<and> c \<le> divisions cfg \<and>
               js_lt (vec_y (position (horizontal_panels (emitted_bookcase s cfg) cfg ! nat r)))
                     (vec_y (position m)) \<and>
               js_lt (vec_y (position m))
                     (vec_y (position
                        (horizontal_panels (emitted_bookcase s cfg) cfg ! nat (r + 1)))) \<and>
               js_lt (vec_x (position (vertical_panels (emitted_bookcase s cfg) cfg ! nat c)))
                     (vec_x (position m)) \<and>
               js_lt (vec_x (position m))
                     (vec_x (position
                        (vertical_panels (emitted_bookcase s cfg) cfg ! nat (c + 1))))"
      by (rule hit_region_between_panels)
  qed
  show ?thesis
    by (intro conjI) (fact 1, fact 2, fact 3, fact 4, fact 5, fact 6, fact 7, fact 8)
qed

theorem createBookcase_hit_regions_witness:
  "0 \<le> shelves defaultConfig \<and> 0 \<le> divisions defaultConfig \<and>
   valid_config defaultConfig \<and>
   emitted_compartments initialScene defaultConfig ! 0 \<in>
     set (emitted_compartments initialScene defaultConfig) \<and>
   userData (emitted_compartments initialScene defaultConfig ! 0) = Some (0, 0) \<and>
   length (emitted_compartments initialScene defaultConfig) = 15 \<and>
   length (compartments_children (createBookcase initialScene defaultConfig)) = 15 \<and>
   map userData (emitted_compartments initialScene defaultConfig) =
     map Some [(0, 0), (0, 1), (0, 2), (1, 0), (1, 1), (1, 2), (2, 0), (2, 1), (2, 2),
               (3, 0), (3, 1), (3, 2), (4, 0), (4, 1), (4, 2)] \<and>
   geometry (emitted_compartments initialScene defaultConfig ! 0) =
     PlaneGeometry (Fin (109 / 150)) (Fin (48 / 125)) \<and>
   position (emitted_compartments initialScene defaultConfig ! 0) =
     Vector3 (Fin (- (121 / 150))) (Fin (34 / 125)) (Fin (2 / 15)) \<and>
   js_lt (vec_y (position (horizontal_panels (emitted_bookcase initialScene defaultConfig)
            defaultConfig ! 0)))
         (vec_y (position (emitted_compartments initialScene defaultConfig ! 0))) \<and>
   js_lt (vec_y (position (emitted_compartments initialScene defaultConfig ! 0)))
         (vec_y (position (horizontal_panels (emitted_bookcase initialScene defaultConfig)
            defaultConfig ! 1)))"
proof -
  let ?ec = "emitted_compartments initialScene defaultConfig"
  have a: "0 \<le> shelves defaultConfig" and b: "0 \<le> divisions defaultConfig"
    and c: "shelves defaultConfig = 4" and d: "divisions defaultConfig = 2"
    by (simp_all add: defaultConfig_def)
  have e: "compartments_children initialScene = []"
    by (simp add: initialScene_def)
  have f: "[0..4::int] = [0, 1, 2, 3, 4]" "[0..2::int] = [0, 1, 2]"
    by (simp_all add: upto_rec1)
  note t = createBookcase_hit_regions [OF a b, of initialScene]
  from t have len: "length ?ec = 15"
    by (simp add: c d)
  then have mem: "?ec ! 0 \<in> set ?ec"
    by simp
  from t have "map userData ?ec ! 0 = Some (0, 0)"
    by (simp add: c d f)
  with len have ud: "userData (?ec ! 0) = Some (0, 0)"
    by simp
  from t have "map (\<lambda>m. (geometry m, material m, position m, userData m)) ?ec ! 0 =
      (PlaneGeometry (Fin (109 / 150)) (Fin (48 / 125)), CompartmentMaterial,
       Vector3 (Fin (- (121 / 150))) (Fin (34 / 125)) (Fin (2 / 15)), Some (0, 0))"
    by (simp add: f defaultConfig_def jsnum_ops)
  with len have gp: "geometry (?ec ! 0) = PlaneGeometry (Fin (109 / 150)) (Fin (48 / 125))"
    "position (?ec ! 0) = Vector3 (Fin (- (121 / 150))) (Fin (34 / 125)) (Fin (2 / 15))"
    by simp_all
  from t valid_defaultConfig mem ud have
    "js_lt (vec_y (position (horizontal_panels (emitted_bookcase initialScene defaultConfig)
            defaultConfig ! nat 0))) (vec_y (position (?ec ! 0))) \<and>
     js_lt (vec_y (position (?ec ! 0)))
         (vec_y (position (horizontal_panels (emitted_bookcase initialScene defaultConfig)
            defaultConfig ! nat (0 + 1))))"
    by blast
  with t a b valid_defaultConfig mem ud len gp show ?thesis
    by (simp add: c d e f)
qed

section \<open>Properties of degenerate counts\<close>









end
